theory Spec2Isabelle
  imports Main "HOL-Library.Word"
begin

unbundle bit_operations_syntax

section \<open>The VGA emulation of the ReactOS virtual DOS machine (subsystems/ntvdm/vga.c)\<close>

text \<open>
  A shallow embedding of the register file, the port dispatch, the address translation and
  the planar memory of \<^verbatim>\<open>vga.c\<close>. The globals of the C file are the fields of one
  record that every function takes and returns; C integers are machine words of their
  width; a C array is a function from the index to the element. The register banks are
  indexed by the constants of the header and by the \<^verbatim>\<open>BYTE\<close> index registers, which stay
  inside the banks. \<^verbatim>\<open>VgaMemory\<close>, the caller's buffer and the host's framebuffer are
  indexed by computed addresses: there an access outside the array, or through a pointer
  that holds no array, is undefined in C, and the model returns \<open>None\<close>. So does a function
  that divides by zero. A function that returns \<open>Some\<close> has run to its end.
\<close>

subsection \<open>C types\<close>

type_synonym BYTE = "8 word"
type_synonym WORD = "16 word"
type_synonym DWORD = "32 word"

text \<open>
  \<^verbatim>\<open>COORD\<close> holds two \<^verbatim>\<open>SHORT\<close>s. The values computed here lie between 0 and 2304, where
  signed and unsigned 16-bit arithmetic agree.
\<close>

record COORD =
  X :: "16 word"
  Y :: "16 word"

text \<open>\<^verbatim>\<open>SMALL_RECT\<close> holds four \<^verbatim>\<open>SHORT\<close>s, which the code compares as signed numbers.\<close>

record SMALL_RECT =
  Left :: "16 word"
  Top :: "16 word"
  Right :: "16 word"
  Bottom :: "16 word"

text \<open>
  \<^verbatim>\<open>CHAR_INFO\<close>, a cell of the text console: the file reads and writes the member
  \<^verbatim>\<open>Char.AsciiChar\<close> and the member \<^verbatim>\<open>Attributes\<close>.
\<close>

record CHAR_INFO =
  AsciiChar :: BYTE
  Attributes :: WORD

text \<open>
  What \<^verbatim>\<open>ConsoleFramebuffer\<close> points to. It is an untyped pointer that the scan-out casts
  to \<^verbatim>\<open>PCHAR_INFO\<close> (the cells of the text mode, from \<^verbatim>\<open>HeapAlloc\<close>) or to \<^verbatim>\<open>PBYTE\<close> (the
  pixels of the graphics mode, the bitmap of the host's screen buffer). \<open>NoBuffer\<close> is the
  pointer that holds no array: \<^verbatim>\<open>NULL\<close>, or the address of a bitmap whose screen buffer has
  been closed.
\<close>

datatype framebuffer = NoBuffer | CharBuffer "CHAR_INFO list" | GraphicsBuffer "BYTE list"

subsection \<open>The constants of vga.h\<close>

text \<open>
  \<^verbatim>\<open>vga.h\<close> is not among the sources. Its port numbers, register indices, register
  counts and bit masks are therefore parameters: every function takes the header \<open>h\<close>, and
  a theorem says what it needs of it. A bit mask is used only in \<^verbatim>\<open>Byte & MASK\<close> and
  \<^verbatim>\<open>Byte |= MASK\<close>, so its low eight bits are all that matter.
\<close>

record vga_h =
  VGA_AC_INDEX :: WORD
  VGA_AC_READ :: WORD
  VGA_SEQ_INDEX :: WORD
  VGA_SEQ_DATA :: WORD
  VGA_DAC_READ_INDEX :: WORD
  VGA_DAC_WRITE_INDEX :: WORD
  VGA_DAC_DATA :: WORD
  VGA_MISC_READ :: WORD
  VGA_MISC_WRITE :: WORD
  VGA_CRTC_INDEX :: WORD
  VGA_CRTC_DATA :: WORD
  VGA_GC_INDEX :: WORD
  VGA_GC_DATA :: WORD
  VGA_STAT_MONO :: WORD
  VGA_STAT_COLOR :: WORD
  VGA_SEQ_RESET_REG :: nat
  VGA_SEQ_CLOCK_REG :: nat
  VGA_SEQ_MASK_REG :: nat
  VGA_SEQ_MEM_REG :: nat
  VGA_SEQ_MAX_REG :: nat
  VGA_GC_RESET_REG :: nat
  VGA_GC_READ_MAP_SEL_REG :: nat
  VGA_GC_MODE_REG :: nat
  VGA_GC_MISC_REG :: nat
  VGA_GC_MAX_REG :: nat
  VGA_CRTC_HORZ_TOTAL_REG :: nat
  VGA_CRTC_END_HORZ_DISP_REG :: nat
  VGA_CRTC_OVERFLOW_REG :: nat
  VGA_CRTC_MAX_SCAN_LINE_REG :: nat
  VGA_CRTC_CURSOR_START_REG :: nat
  VGA_CRTC_CURSOR_END_REG :: nat
  VGA_CRTC_CURSOR_LOC_HIGH_REG :: nat
  VGA_CRTC_CURSOR_LOC_LOW_REG :: nat
  VGA_CRTC_START_ADDR_HIGH_REG :: nat
  VGA_CRTC_START_ADDR_LOW_REG :: nat
  VGA_CRTC_OFFSET_REG :: nat
  VGA_CRTC_VERT_DISP_END_REG :: nat
  VGA_CRTC_UNDERLINE_REG :: nat
  VGA_CRTC_MODE_CONTROL_REG :: nat
  VGA_CRTC_MAX_REG :: nat
  VGA_AC_PAL_0_REG :: nat
  VGA_AC_CONTROL_REG :: nat
  VGA_AC_MAX_REG :: nat
  VGA_MISC_RAM_ENABLED :: BYTE
  VGA_STAT_DD :: BYTE
  VGA_STAT_VRETRACE :: BYTE
  VGA_SEQ_CLOCK_98DM :: BYTE
  VGA_SEQ_MEM_C4 :: BYTE
  VGA_GC_MODE_OE :: BYTE
  VGA_GC_MODE_SHIFTREG :: BYTE
  VGA_GC_MODE_SHIFT256 :: BYTE
  VGA_GC_MISC_NOALPHA :: BYTE
  VGA_CRTC_OVERFLOW_VDE8 :: BYTE
  VGA_CRTC_OVERFLOW_VDE9 :: BYTE
  VGA_CRTC_UNDERLINE_DWORD :: BYTE
  VGA_CRTC_MODE_CONTROL_BYTE :: BYTE
  VGA_AC_CONTROL_8BIT :: BYTE

text \<open>
  Modelled from the spec: \<^verbatim>\<open>VGA_NUM_BANKS\<close>, a macro of the missing \<^verbatim>\<open>vga.h\<close>. The spec's
  data model has "NUM_BANKS = 4".
\<close>

definition VGA_NUM_BANKS :: nat where
  "VGA_NUM_BANKS = 4"

text \<open>
  Modelled from the spec: \<^verbatim>\<open>VGA_BANK_SIZE\<close>, a macro of the missing \<^verbatim>\<open>vga.h\<close>. The spec's
  glossary has a plane as "one of four parallel 64 KiB byte stores".
\<close>

definition VGA_BANK_SIZE :: nat where
  "VGA_BANK_SIZE = 65536"

text \<open>
  Modelled from the spec: \<^verbatim>\<open>VGA_PALETTE_SIZE\<close>, a macro of the missing \<^verbatim>\<open>vga.h\<close>. The
  spec's DAC palette has "0..255 triplet entries of 6-bit R/G/B", one byte of
  \<^verbatim>\<open>VgaDacRegisters\<close> for each component, and its graphics surface a "256-entry identity
  palette", which \<^verbatim>\<open>VgaEnterGraphicsMode\<close> fills for \<^verbatim>\<open>i < VGA_PALETTE_SIZE / 3\<close>.
\<close>

definition VGA_PALETTE_SIZE :: nat where
  "VGA_PALETTE_SIZE = 768"

text \<open>The two tables of the C file.\<close>

definition MemoryBase :: "DWORD list" where
  "MemoryBase = [0xA0000, 0xA0000, 0xB0000, 0xB8000]"

definition MemoryLimit :: "DWORD list" where
  "MemoryLimit = [0xAFFFF, 0xAFFFF, 0xB7FFF, 0xBFFFF]"

subsection \<open>The state\<close>

text \<open>
  The private variables of the C file, and \<^verbatim>\<open>VdmRunning\<close> of the surrounding emulator.
  \<^verbatim>\<open>ConsoleFramebuffer\<close> is the array that the pointer holds. The three handles
  (\<^verbatim>\<open>TextConsoleBuffer\<close>, \<^verbatim>\<open>GraphicsConsoleBuffer\<close>, \<^verbatim>\<open>ConsoleMutex\<close>) are left out: the file
  only passes them to the host, and compares one with \<^verbatim>\<open>INVALID_HANDLE_VALUE\<close> right after
  the host has returned it.
\<close>

record vga_state =
  VgaMemory :: "nat \<Rightarrow> BYTE"
  VgaMiscRegister :: BYTE
  VgaSeqIndex :: BYTE
  VgaSeqRegisters :: "nat \<Rightarrow> BYTE"
  VgaGcIndex :: BYTE
  VgaGcRegisters :: "nat \<Rightarrow> BYTE"
  VgaCrtcIndex :: BYTE
  VgaCrtcRegisters :: "nat \<Rightarrow> BYTE"
  VgaAcIndex :: BYTE
  VgaAcLatch :: bool
  VgaAcRegisters :: "nat \<Rightarrow> BYTE"
  VgaDacIndex :: BYTE
  VgaDacReadWrite :: bool
  VgaDacRegisters :: "nat \<Rightarrow> BYTE"
  InVerticalRetrace :: bool
  InHorizontalRetrace :: bool
  ModeChanged :: bool
  CursorMoved :: bool
  TextMode :: bool
  VdmRunning :: bool
  ConsoleFramebuffer :: framebuffer
  NeedsUpdate :: bool
  UpdateRectangle :: SMALL_RECT

text \<open>The static initialisers; static storage without one is zero.\<close>

definition vga_init :: "vga_h \<Rightarrow> vga_state" where
  "vga_init h =
     \<lparr>VgaMemory = (\<lambda>_. 0),
      VgaMiscRegister = 0,
      VgaSeqIndex = of_nat (VGA_SEQ_RESET_REG h),
      VgaSeqRegisters = (\<lambda>_. 0),
      VgaGcIndex = of_nat (VGA_GC_RESET_REG h),
      VgaGcRegisters = (\<lambda>_. 0),
      VgaCrtcIndex = of_nat (VGA_CRTC_HORZ_TOTAL_REG h),
      VgaCrtcRegisters = (\<lambda>_. 0),
      VgaAcIndex = of_nat (VGA_AC_PAL_0_REG h),
      VgaAcLatch = False,
      VgaAcRegisters = (\<lambda>_. 0),
      VgaDacIndex = 0,
      VgaDacReadWrite = False,
      VgaDacRegisters = (\<lambda>_. 0),
      InVerticalRetrace = False,
      InHorizontalRetrace = False,
      ModeChanged = True,
      CursorMoved = False,
      TextMode = True,
      VdmRunning = True,
      ConsoleFramebuffer = NoBuffer,
      NeedsUpdate = False,
      UpdateRectangle = \<lparr>Left = 0, Top = 0, Right = 0, Bottom = 0\<rparr>\<rparr>"

text \<open>
  What the host answers during one refresh: whether \<^verbatim>\<open>CreateConsoleScreenBuffer\<close> returns
  a valid handle (and with it a bitmap of the size asked for), whether \<^verbatim>\<open>HeapAlloc\<close>
  returns memory, and the rectangle that \<^verbatim>\<open>WriteConsoleOutputA\<close> stores through its last
  argument, the region it has written. Every host call is taken to return, the wait for
  the mutex too.
\<close>

record host =
  CreateConsoleScreenBuffer_ok :: bool
  HeapAlloc_ok :: bool
  WriteConsoleOutputA_region :: SMALL_RECT

subsection \<open>Private functions\<close>

definition VgaGetAddressSize :: "vga_h \<Rightarrow> vga_state \<Rightarrow> DWORD" where
  "VgaGetAddressSize h s =
     (if VgaCrtcRegisters s (VGA_CRTC_UNDERLINE_REG h) AND VGA_CRTC_UNDERLINE_DWORD h \<noteq> 0
      then 4
      else if VgaCrtcRegisters s (VGA_CRTC_MODE_CONTROL_REG h) AND VGA_CRTC_MODE_CONTROL_BYTE h \<noteq> 0
      then 1
      else 2)"

definition VgaGetVideoBaseAddress :: "vga_h \<Rightarrow> vga_state \<Rightarrow> DWORD" where
  "VgaGetVideoBaseAddress h s =
     MemoryBase ! unat (drop_bit 2 (VgaGcRegisters s (VGA_GC_MISC_REG h)) AND 3)"

definition VgaGetVideoLimitAddress :: "vga_h \<Rightarrow> vga_state \<Rightarrow> DWORD" where
  "VgaGetVideoLimitAddress h s =
     MemoryLimit ! unat (drop_bit 2 (VgaGcRegisters s (VGA_GC_MISC_REG h)) AND 3)"

text \<open>
  The result is an index into \<^verbatim>\<open>VgaMemory\<close>: \<^verbatim>\<open>Offset + Plane * VGA_BANK_SIZE\<close>, in
  32-bit unsigned arithmetic.
\<close>

definition VgaTranslateReadAddress :: "vga_h \<Rightarrow> vga_state \<Rightarrow> DWORD \<Rightarrow> DWORD" where
  "VgaTranslateReadAddress h s Address =
     (let Offset = Address - VgaGetVideoBaseAddress h s;
          (Plane, Offset) =
            (if VgaSeqRegisters s (VGA_SEQ_MEM_REG h) AND VGA_SEQ_MEM_C4 h \<noteq> 0
             then (ucast (Offset AND 3) :: BYTE, drop_bit 2 Offset)
             else if VgaGcRegisters s (VGA_GC_MODE_REG h) AND VGA_GC_MODE_OE h \<noteq> 0
             then (ucast (Offset AND 1), drop_bit 1 Offset)
             else (VgaGcRegisters s (VGA_GC_READ_MAP_SEL_REG h) AND 3, Offset));
          Offset = Offset * VgaGetAddressSize h s
      in Offset + ucast Plane * of_nat VGA_BANK_SIZE)"

definition VgaTranslateWriteAddress :: "vga_h \<Rightarrow> vga_state \<Rightarrow> DWORD \<Rightarrow> DWORD" where
  "VgaTranslateWriteAddress h s Address =
     (let Offset = Address - VgaGetVideoBaseAddress h s;
          Offset =
            (if VgaSeqRegisters s (VGA_SEQ_MEM_REG h) AND VGA_SEQ_MEM_C4 h \<noteq> 0
             then drop_bit 2 Offset
             else if VgaGcRegisters s (VGA_GC_MODE_REG h) AND VGA_GC_MODE_OE h \<noteq> 0
             then drop_bit 1 Offset
             else Offset)
      in Offset * VgaGetAddressSize h s)"

text \<open>
  The register writes. Each \<^verbatim>\<open>ASSERT\<close> of the C code states that the index is inside the
  array; the index ports keep it so (lemma \<open>reachable_indices\<close> below).
\<close>

definition VgaWriteSequencer :: "vga_h \<Rightarrow> vga_state \<Rightarrow> BYTE \<Rightarrow> vga_state" where
  "VgaWriteSequencer h s Data =
     s\<lparr>VgaSeqRegisters := (VgaSeqRegisters s)(unat (VgaSeqIndex s) := Data)\<rparr>"

definition VgaWriteGc :: "vga_h \<Rightarrow> vga_state \<Rightarrow> BYTE \<Rightarrow> vga_state" where
  "VgaWriteGc h s Data =
     (let s1 = s\<lparr>VgaGcRegisters := (VgaGcRegisters s)(unat (VgaGcIndex s) := Data)\<rparr>
      in if unat (VgaGcIndex s) = VGA_GC_MISC_REG h then s1\<lparr>ModeChanged := True\<rparr> else s1)"

definition VgaWriteCrtc :: "vga_h \<Rightarrow> vga_state \<Rightarrow> BYTE \<Rightarrow> vga_state" where
  "VgaWriteCrtc h s Data =
     (let s1 = s\<lparr>VgaCrtcRegisters := (VgaCrtcRegisters s)(unat (VgaCrtcIndex s) := Data)\<rparr>;
          i = unat (VgaCrtcIndex s)
      in if i = VGA_CRTC_END_HORZ_DISP_REG h \<or> i = VGA_CRTC_VERT_DISP_END_REG h
            \<or> i = VGA_CRTC_OVERFLOW_REG h
         then s1\<lparr>ModeChanged := True\<rparr>
         else if i = VGA_CRTC_CURSOR_LOC_LOW_REG h \<or> i = VGA_CRTC_CURSOR_LOC_HIGH_REG h
            \<or> i = VGA_CRTC_CURSOR_START_REG h \<or> i = VGA_CRTC_CURSOR_END_REG h
         then s1\<lparr>CursorMoved := True\<rparr>
         else s1)"

text \<open>
  \<^verbatim>\<open>VgaDacIndex\<close> is a \<^verbatim>\<open>BYTE\<close>: the post-increment wraps at 256, and the remainder by
  \<^verbatim>\<open>VGA_PALETTE_SIZE\<close> is taken of that byte.
\<close>

definition VgaWriteDac :: "vga_state \<Rightarrow> BYTE \<Rightarrow> vga_state" where
  "VgaWriteDac s Data =
     s\<lparr>VgaDacRegisters := (VgaDacRegisters s)(unat (VgaDacIndex s) := Data),
       VgaDacIndex := of_nat (unat (VgaDacIndex s + 1) mod VGA_PALETTE_SIZE)\<rparr>"

definition VgaWriteAc :: "vga_h \<Rightarrow> vga_state \<Rightarrow> BYTE \<Rightarrow> vga_state" where
  "VgaWriteAc h s Data =
     s\<lparr>VgaAcRegisters := (VgaAcRegisters s)(unat (VgaAcIndex s) := Data)\<rparr>"

subsection \<open>The display mode\<close>

definition VgaGetDisplayResolution :: "vga_h \<Rightarrow> vga_state \<Rightarrow> COORD" where
  "VgaGetDisplayResolution h s =
     (let MaximumScanLine = 1 + (VgaCrtcRegisters s (VGA_CRTC_MAX_SCAN_LINE_REG h) AND 0x1F);
          RX = ucast (VgaCrtcRegisters s (VGA_CRTC_END_HORZ_DISP_REG h)) :: 16 word;
          RY = ucast (VgaCrtcRegisters s (VGA_CRTC_VERT_DISP_END_REG h)) :: 16 word;
          RY = (if VgaCrtcRegisters s (VGA_CRTC_OVERFLOW_REG h) AND VGA_CRTC_OVERFLOW_VDE8 h \<noteq> 0
                then RY OR push_bit 8 1 else RY);
          RY = (if VgaCrtcRegisters s (VGA_CRTC_OVERFLOW_REG h) AND VGA_CRTC_OVERFLOW_VDE9 h \<noteq> 0
                then RY OR push_bit 9 1 else RY);
          RX = RX + 1;
          RY = RY + 1;
          RX = (if VgaGcRegisters s (VGA_GC_MISC_REG h) AND VGA_GC_MISC_NOALPHA h \<noteq> 0
                then (let RX = RX * (if VgaSeqRegisters s (VGA_SEQ_CLOCK_REG h)
                                         AND VGA_SEQ_CLOCK_98DM h \<noteq> 0 then 8 else 9)
                      in if VgaAcRegisters s (VGA_AC_CONTROL_REG h) AND VGA_AC_CONTROL_8BIT h \<noteq> 0
                         then RX div 2 else RX)
                else RX);
          RY = RY div ucast MaximumScanLine
      in \<lparr>X = RX, Y = RY\<rparr>)"

text \<open>
  \<^verbatim>\<open>VgaMarkForUpdate\<close> grows the dirty rectangle to hold one more point. \<^verbatim>\<open>min\<close> and \<^verbatim>\<open>max\<close>
  are the macros of the host's headers, \<^verbatim>\<open>((a) < (b)) ? (a) : (b)\<close> and
  \<^verbatim>\<open>((a) > (b)) ? (a) : (b)\<close>, here on \<^verbatim>\<open>SHORT\<close>s; \<^verbatim>\<open>SHRT_MAX\<close> and \<^verbatim>\<open>SHRT_MIN\<close> are the
  largest and the smallest of them.
\<close>

definition SHRT_MAX :: "16 word" where
  "SHRT_MAX = 0x7FFF"

definition SHRT_MIN :: "16 word" where
  "SHRT_MIN = 0x8000"

definition short_min :: "16 word \<Rightarrow> 16 word \<Rightarrow> 16 word" where
  "short_min a b = (if sint a < sint b then a else b)"

definition short_max :: "16 word \<Rightarrow> 16 word \<Rightarrow> 16 word" where
  "short_max a b = (if sint a > sint b then a else b)"

definition VgaMarkForUpdate :: "vga_state \<Rightarrow> 16 word \<Rightarrow> 16 word \<Rightarrow> vga_state" where
  "VgaMarkForUpdate s Row Column =
     (let r = (if \<not> NeedsUpdate s
               then (UpdateRectangle s)\<lparr>Left := SHRT_MAX, Top := SHRT_MAX,
                                        Right := SHRT_MIN, Bottom := SHRT_MIN\<rparr>
               else UpdateRectangle s);
          r = r\<lparr>Left := short_min (Left r) Column\<rparr>;
          r = r\<lparr>Right := short_max (Right r) Column\<rparr>;
          r = r\<lparr>Top := short_min (Top r) Row\<rparr>;
          r = r\<lparr>Bottom := short_max (Bottom r) Row\<rparr>
      in s\<lparr>UpdateRectangle := r, NeedsUpdate := True\<rparr>)"

text \<open>
  Entering and leaving a mode. \<^verbatim>\<open>VgaEnterGraphicsMode\<close> returns \<^verbatim>\<open>FALSE\<close> before it stores
  the bitmap's address when the host gives no screen buffer; otherwise the framebuffer is
  the host's bitmap of \<^verbatim>\<open>biSizeImage = Resolution->X * Resolution->Y\<close> bytes, cleared.
  \<^verbatim>\<open>VgaEnterTextMode\<close> stores what \<^verbatim>\<open>HeapAlloc\<close> returns, zeroed cells or \<^verbatim>\<open>NULL\<close>, and in
  the second case stops the emulator. \<^verbatim>\<open>VgaLeaveTextMode\<close> frees the cells and stores
  \<^verbatim>\<open>NULL\<close>; \<^verbatim>\<open>VgaLeaveGraphicsMode\<close> closes the screen buffer and keeps the address of its
  bitmap. Both coordinates of a resolution are at least 0.
\<close>

definition VgaEnterGraphicsMode :: "host \<Rightarrow> vga_state \<Rightarrow> COORD \<Rightarrow> bool \<times> vga_state" where
  "VgaEnterGraphicsMode ho s Resolution =
     (if \<not> CreateConsoleScreenBuffer_ok ho then (False, s)
      else (True, s\<lparr>ConsoleFramebuffer :=
                      GraphicsBuffer
                        (replicate (nat (sint (X Resolution) * sint (Y Resolution))) 0)\<rparr>))"

definition VgaLeaveGraphicsMode :: "vga_state \<Rightarrow> vga_state" where
  "VgaLeaveGraphicsMode s = s\<lparr>ConsoleFramebuffer := NoBuffer\<rparr>"

definition VgaEnterTextMode :: "host \<Rightarrow> vga_state \<Rightarrow> COORD \<Rightarrow> bool \<times> vga_state" where
  "VgaEnterTextMode ho s Resolution =
     (if HeapAlloc_ok ho
      then (True, s\<lparr>ConsoleFramebuffer :=
                      CharBuffer
                        (replicate (nat (sint (X Resolution) * sint (Y Resolution)))
                           \<lparr>AsciiChar = 0, Attributes = 0\<rparr>)\<rparr>)
      else (False, s\<lparr>ConsoleFramebuffer := NoBuffer, VdmRunning := False\<rparr>))"

definition VgaLeaveTextMode :: "vga_state \<Rightarrow> vga_state" where
  "VgaLeaveTextMode s = s\<lparr>ConsoleFramebuffer := NoBuffer\<rparr>"

text \<open>
  \<^verbatim>\<open>VgaUpdateMode\<close>. When the host gives no surface the function returns before it sets
  \<^verbatim>\<open>TextMode\<close> and before it asks for a full update.
\<close>

definition VgaUpdateMode :: "vga_h \<Rightarrow> host \<Rightarrow> vga_state \<Rightarrow> vga_state" where
  "VgaUpdateMode h ho s =
     (let Resolution = VgaGetDisplayResolution h s;
          s0 = (if \<not> TextMode s then VgaLeaveGraphicsMode s else VgaLeaveTextMode s);
          full_update =
            (\<lambda>s. s\<lparr>NeedsUpdate := True,
                   UpdateRectangle := \<lparr>Left = 0, Top = 0,
                                       Right = X Resolution, Bottom = Y Resolution\<rparr>\<rparr>)
      in if VgaGcRegisters s0 (VGA_GC_MISC_REG h) AND VGA_GC_MISC_NOALPHA h = 0
         then (case VgaEnterTextMode ho s0 Resolution of
                 (ok, s1) \<Rightarrow> if \<not> ok then s1 else full_update (s1\<lparr>TextMode := True\<rparr>))
         else (case VgaEnterGraphicsMode ho s0 Resolution of
                 (ok, s1) \<Rightarrow> if \<not> ok then s1 else full_update (s1\<lparr>TextMode := False\<rparr>)))"

subsection \<open>The scan-out\<close>

text \<open>A read of \<^verbatim>\<open>VgaMemory\<close> at a computed index.\<close>

definition VgaMemory_at :: "vga_state \<Rightarrow> DWORD \<Rightarrow> BYTE option" where
  "VgaMemory_at s a =
     (if unat a < VGA_NUM_BANKS * VGA_BANK_SIZE then Some (VgaMemory s (unat a)) else None)"

text \<open>
  The pixel \<open>j\<close> of the scanline at \<open>Address\<close>, in the three shifting modes of
  \<^verbatim>\<open>VgaUpdateFramebuffer\<close>. The indices are computed in 32-bit unsigned arithmetic, as
  \<^verbatim>\<open>Address\<close> is a \<^verbatim>\<open>DWORD\<close>. The two loops over the planes \<open>k\<close> come first.
\<close>

function VgaUpdateFramebuffer_planes8 ::
  "vga_state \<Rightarrow> DWORD \<Rightarrow> DWORD \<Rightarrow> nat \<Rightarrow> nat \<Rightarrow> BYTE \<Rightarrow> BYTE option" where
  "VgaUpdateFramebuffer_planes8 s AddressSize Address j k PixelData =
     (if k < VGA_NUM_BANKS then
        (case VgaMemory_at s (of_nat k * of_nat VGA_BANK_SIZE
                               + (Address + of_nat (j div 4)) * AddressSize) of
           None \<Rightarrow> None
         | Some PlaneData \<Rightarrow>
             (let BitMask = push_bit ((3 - j mod 4) * 2 + 1) 1 :: BYTE;
                  PixelData = (if PlaneData AND BitMask \<noteq> 0
                               then PixelData OR push_bit k 1 else PixelData);
                  PixelData = (if PlaneData AND drop_bit 1 BitMask \<noteq> 0
                               then PixelData OR push_bit (k + 4) 1 else PixelData)
              in VgaUpdateFramebuffer_planes8 s AddressSize Address j (k + 1) PixelData))
      else Some PixelData)"
  by pat_completeness auto
termination
  by (relation "measure (\<lambda>(s, AddressSize, Address, j, k, PixelData). VGA_NUM_BANKS - k)") auto

function VgaUpdateFramebuffer_planes4 ::
  "vga_state \<Rightarrow> DWORD \<Rightarrow> DWORD \<Rightarrow> nat \<Rightarrow> nat \<Rightarrow> BYTE \<Rightarrow> BYTE option" where
  "VgaUpdateFramebuffer_planes4 s AddressSize Address j k PixelData =
     (if k < VGA_NUM_BANKS then
        (case VgaMemory_at s (of_nat k * of_nat VGA_BANK_SIZE
                               + (Address + of_nat (j div 8)) * AddressSize) of
           None \<Rightarrow> None
         | Some PlaneData \<Rightarrow>
             VgaUpdateFramebuffer_planes4 s AddressSize Address j (k + 1)
               (if PlaneData AND push_bit (7 - j mod 8) 1 \<noteq> 0
                then PixelData OR push_bit k 1 else PixelData))
      else Some PixelData)"
  by pat_completeness auto
termination
  by (relation "measure (\<lambda>(s, AddressSize, Address, j, k, PixelData). VGA_NUM_BANKS - k)") auto

definition VgaUpdateFramebuffer_data ::
  "vga_h \<Rightarrow> vga_state \<Rightarrow> DWORD \<Rightarrow> DWORD \<Rightarrow> nat \<Rightarrow> BYTE option" where
  "VgaUpdateFramebuffer_data h s AddressSize Address j =
     (if VgaGcRegisters s (VGA_GC_MODE_REG h) AND VGA_GC_MODE_SHIFT256 h \<noteq> 0 then
        (if VgaAcRegisters s (VGA_AC_CONTROL_REG h) AND VGA_AC_CONTROL_8BIT h \<noteq> 0
         then VgaMemory_at s (of_nat (j mod VGA_NUM_BANKS) * of_nat VGA_BANK_SIZE
                               + (Address + of_nat (j div VGA_NUM_BANKS)) * AddressSize)
         else (case VgaMemory_at s (of_nat (j mod VGA_NUM_BANKS) * of_nat VGA_BANK_SIZE
                                     + (Address + of_nat (j div (VGA_NUM_BANKS * 2)))
                                       * AddressSize) of
                 None \<Rightarrow> None
               | Some PixelData \<Rightarrow>
                   Some (if (j div VGA_NUM_BANKS) mod 2 = 0
                         then drop_bit 4 PixelData else PixelData AND 0x0F)))
      else if VgaGcRegisters s (VGA_GC_MODE_REG h) AND VGA_GC_MODE_SHIFTREG h \<noteq> 0 then Some 0
      else if VgaAcRegisters s (VGA_AC_CONTROL_REG h) AND VGA_AC_CONTROL_8BIT h \<noteq> 0
      then VgaUpdateFramebuffer_planes8 s AddressSize Address j 0 0
      else VgaUpdateFramebuffer_planes4 s AddressSize Address j 0 0)"

text \<open>
  The body of the loop over the pixels \<open>j\<close> of scanline \<open>i\<close>: the pixel is compared with
  \<^verbatim>\<open>GraphicsBuffer[i * Resolution.X + j]\<close> and stored there when it differs. The framebuffer
  is read as bytes, so it has to hold the bitmap.
\<close>

definition VgaUpdateFramebuffer_pixel ::
  "vga_h \<Rightarrow> vga_state \<Rightarrow> COORD \<Rightarrow> DWORD \<Rightarrow> DWORD \<Rightarrow> nat \<Rightarrow> nat \<Rightarrow> vga_state option" where
  "VgaUpdateFramebuffer_pixel h s Resolution AddressSize Address i j =
     (case VgaUpdateFramebuffer_data h s AddressSize Address j of
        None \<Rightarrow> None
      | Some PixelData \<Rightarrow>
          (case ConsoleFramebuffer s of
             GraphicsBuffer b \<Rightarrow>
               (let n = nat (int i * sint (X Resolution) + int j)
                in if n < length b
                   then (if b ! n \<noteq> PixelData
                         then Some (VgaMarkForUpdate
                                      (s\<lparr>ConsoleFramebuffer := GraphicsBuffer (b[n := PixelData])\<rparr>)
                                      (of_nat i) (of_nat j))
                         else Some s)
                   else None)
           | _ \<Rightarrow> None))"

function VgaUpdateFramebuffer_pixels ::
  "vga_h \<Rightarrow> vga_state \<Rightarrow> COORD \<Rightarrow> DWORD \<Rightarrow> DWORD \<Rightarrow> nat \<Rightarrow> nat \<Rightarrow> vga_state option" where
  "VgaUpdateFramebuffer_pixels h s Resolution AddressSize Address i j =
     (if int j < sint (X Resolution) then
        (case VgaUpdateFramebuffer_pixel h s Resolution AddressSize Address i j of
           None \<Rightarrow> None
         | Some s1 \<Rightarrow> VgaUpdateFramebuffer_pixels h s1 Resolution AddressSize Address i (j + 1))
      else Some s)"
  by pat_completeness auto
termination
  by (relation "measure (\<lambda>(h, s, Resolution, AddressSize, Address, i, j).
                            nat (sint (X Resolution)) - j)") auto

function VgaUpdateFramebuffer_lines ::
  "vga_h \<Rightarrow> vga_state \<Rightarrow> COORD \<Rightarrow> DWORD \<Rightarrow> DWORD \<Rightarrow> DWORD \<Rightarrow> nat \<Rightarrow> vga_state option" where
  "VgaUpdateFramebuffer_lines h s Resolution AddressSize ScanlineSize Address i =
     (if int i < sint (Y Resolution) then
        (case VgaUpdateFramebuffer_pixels h s Resolution AddressSize Address i 0 of
           None \<Rightarrow> None
         | Some s1 \<Rightarrow>
             VgaUpdateFramebuffer_lines h s1 Resolution AddressSize ScanlineSize
               (Address + ScanlineSize) (i + 1))
      else Some s)"
  by pat_completeness auto
termination
  by (relation "measure (\<lambda>(h, s, Resolution, AddressSize, ScanlineSize, Address, i).
                            nat (sint (Y Resolution)) - i)") auto

text \<open>
  The text mode: the body of the loop over the characters \<open>j\<close> of line \<open>i\<close>, that loop, and
  the loop over the lines. The character is on plane 0 and its attribute on plane 1, at
  the low 16 bits of the address. The framebuffer is read as cells.
\<close>

definition VgaUpdateFramebuffer_char ::
  "vga_state \<Rightarrow> COORD \<Rightarrow> DWORD \<Rightarrow> DWORD \<Rightarrow> nat \<Rightarrow> nat \<Rightarrow> vga_state option" where
  "VgaUpdateFramebuffer_char s Resolution AddressSize Address i j =
     (let CurrentAddr = ((Address + of_nat j) * AddressSize) AND 0xFFFF
      in case VgaMemory_at s CurrentAddr of
           None \<Rightarrow> None
         | Some c \<Rightarrow>
             (case VgaMemory_at s (CurrentAddr + of_nat VGA_BANK_SIZE) of
                None \<Rightarrow> None
              | Some a \<Rightarrow>
                  (let CharInfo = \<lparr>AsciiChar = c, Attributes = ucast a\<rparr>
                   in case ConsoleFramebuffer s of
                        CharBuffer b \<Rightarrow>
                          (let n = nat (int i * sint (X Resolution) + int j)
                           in if n < length b
                              then (if AsciiChar (b ! n) \<noteq> AsciiChar CharInfo
                                       \<or> Attributes (b ! n) \<noteq> Attributes CharInfo
                                    then Some (VgaMarkForUpdate
                                                 (s\<lparr>ConsoleFramebuffer :=
                                                      CharBuffer (b[n := CharInfo])\<rparr>)
                                                 (of_nat i) (of_nat j))
                                    else Some s)
                              else None)
                      | _ \<Rightarrow> None)))"

function VgaUpdateFramebuffer_chars ::
  "vga_state \<Rightarrow> COORD \<Rightarrow> DWORD \<Rightarrow> DWORD \<Rightarrow> nat \<Rightarrow> nat \<Rightarrow> vga_state option" where
  "VgaUpdateFramebuffer_chars s Resolution AddressSize Address i j =
     (if int j < sint (X Resolution) then
        (case VgaUpdateFramebuffer_char s Resolution AddressSize Address i j of
           None \<Rightarrow> None
         | Some s1 \<Rightarrow> VgaUpdateFramebuffer_chars s1 Resolution AddressSize Address i (j + 1))
      else Some s)"
  by pat_completeness auto
termination
  by (relation "measure (\<lambda>(s, Resolution, AddressSize, Address, i, j).
                            nat (sint (X Resolution)) - j)") auto

function VgaUpdateFramebuffer_rows ::
  "vga_state \<Rightarrow> COORD \<Rightarrow> DWORD \<Rightarrow> DWORD \<Rightarrow> DWORD \<Rightarrow> nat \<Rightarrow> vga_state option" where
  "VgaUpdateFramebuffer_rows s Resolution AddressSize ScanlineSize Address i =
     (if int i < sint (Y Resolution) then
        (case VgaUpdateFramebuffer_chars s Resolution AddressSize Address i 0 of
           None \<Rightarrow> None
         | Some s1 \<Rightarrow>
             VgaUpdateFramebuffer_rows s1 Resolution AddressSize ScanlineSize
               (Address + ScanlineSize) (i + 1))
      else Some s)"
  by pat_completeness auto
termination
  by (relation "measure (\<lambda>(s, Resolution, AddressSize, ScanlineSize, Address, i).
                            nat (sint (Y Resolution)) - i)") auto

text \<open>
  \<^verbatim>\<open>VgaUpdateFramebuffer\<close>. Which of the two scan-outs runs is decided by the GC's Misc
  register, not by \<^verbatim>\<open>TextMode\<close>.
\<close>

definition VgaUpdateFramebuffer :: "vga_h \<Rightarrow> vga_state \<Rightarrow> vga_state option" where
  "VgaUpdateFramebuffer h s =
     (let Resolution = VgaGetDisplayResolution h s;
          AddressSize = VgaGetAddressSize h s;
          Address = push_bit 8 (ucast (VgaCrtcRegisters s (VGA_CRTC_START_ADDR_HIGH_REG h)))
                    + ucast (VgaCrtcRegisters s (VGA_CRTC_START_ADDR_LOW_REG h)) :: DWORD;
          ScanlineSize = ucast (VgaCrtcRegisters s (VGA_CRTC_OFFSET_REG h)) * 2 :: DWORD
      in if VgaGcRegisters s (VGA_GC_MISC_REG h) AND VGA_GC_MISC_NOALPHA h \<noteq> 0
         then VgaUpdateFramebuffer_lines h s Resolution AddressSize ScanlineSize Address 0
         else VgaUpdateFramebuffer_rows s Resolution AddressSize ScanlineSize Address 0)"

text \<open>
  \<^verbatim>\<open>VgaUpdateTextCursor\<close> computes the shape and the position of the cursor and hands them
  to the host; it writes no global. The position is \<^verbatim>\<open>Location % ScanlineSize\<close> and
  \<^verbatim>\<open>Location / ScanlineSize\<close>, with \<^verbatim>\<open>ScanlineSize\<close> twice the CRTC's Offset register: a
  division by zero when that register is 0. The other division, by \<^verbatim>\<open>TextSize\<close>, is by at
  least 1.
\<close>

definition VgaUpdateTextCursor :: "vga_h \<Rightarrow> vga_state \<Rightarrow> vga_state option" where
  "VgaUpdateTextCursor h s =
     (let ScanlineSize = ucast (VgaCrtcRegisters s (VGA_CRTC_OFFSET_REG h)) * 2 :: DWORD
      in if ScanlineSize = 0 then None else Some s)"

subsection \<open>The refresh\<close>

text \<open>
  \<^verbatim>\<open>VgaRefreshDisplay\<close>. The repaint at its end is the host's: in graphics mode
  \<^verbatim>\<open>InvalidateConsoleDIBits\<close> takes the handle of the screen buffer; in text mode
  \<^verbatim>\<open>WriteConsoleOutputA\<close> reads the cells through \<^verbatim>\<open>ConsoleFramebuffer\<close> and stores the
  region written in \<^verbatim>\<open>UpdateRectangle\<close>.
\<close>

definition VgaRefreshDisplay :: "vga_h \<Rightarrow> host \<Rightarrow> vga_state \<Rightarrow> vga_state option" where
  "VgaRefreshDisplay h ho s =
     (let s1 = (if ModeChanged s then (VgaUpdateMode h ho s)\<lparr>ModeChanged := False\<rparr> else s)
      in case (if CursorMoved s1
               then (case VgaUpdateTextCursor h s1 of
                       None \<Rightarrow> None
                     | Some s2 \<Rightarrow> Some (s2\<lparr>CursorMoved := False\<rparr>))
               else Some s1) of
           None \<Rightarrow> None
         | Some s2 \<Rightarrow>
             (case VgaUpdateFramebuffer h s2 of
                None \<Rightarrow> None
              | Some s3 \<Rightarrow>
                  (let s4 = s3\<lparr>InVerticalRetrace := True\<rparr>
                   in if \<not> NeedsUpdate s4 then Some s4
                      else if VgaGcRegisters s4 (VGA_GC_MISC_REG h) AND VGA_GC_MISC_NOALPHA h \<noteq> 0
                      then Some (s4\<lparr>NeedsUpdate := False\<rparr>)
                      else (case ConsoleFramebuffer s4 of
                              CharBuffer b \<Rightarrow>
                                Some (s4\<lparr>UpdateRectangle := WriteConsoleOutputA_region ho,
                                         NeedsUpdate := False\<rparr>)
                            | _ \<Rightarrow> None))))"

definition VgaHorizontalRetrace :: "vga_state \<Rightarrow> vga_state" where
  "VgaHorizontalRetrace s = s\<lparr>InHorizontalRetrace := True\<rparr>"

subsection \<open>Video memory\<close>

text \<open>
  \<^verbatim>\<open>VgaReadMemory\<close>. The caller's buffer is a list; the function returns it with the bytes
  read. It writes no global. A translated address outside \<^verbatim>\<open>VgaMemory\<close>, or a \<^verbatim>\<open>Size\<close>
  beyond the buffer, is an access out of bounds: \<open>None\<close>.
\<close>

function VgaReadMemory_loop ::
  "vga_h \<Rightarrow> vga_state \<Rightarrow> DWORD \<Rightarrow> BYTE list \<Rightarrow> DWORD \<Rightarrow> nat \<Rightarrow> BYTE list option" where
  "VgaReadMemory_loop h s Address Buffer Size i =
     (if i < unat Size then
        (let VideoAddress = VgaTranslateReadAddress h s (Address + of_nat i)
         in if unat VideoAddress < VGA_NUM_BANKS * VGA_BANK_SIZE \<and> i < length Buffer
            then VgaReadMemory_loop h s Address
                   (Buffer[i := VgaMemory s (unat VideoAddress)]) Size (i + 1)
            else None)
      else Some Buffer)"
  by pat_completeness auto
termination
  by (relation "measure (\<lambda>(h, s, Address, Buffer, Size, i). unat Size - i)") auto

definition VgaReadMemory ::
  "vga_h \<Rightarrow> vga_state \<Rightarrow> DWORD \<Rightarrow> BYTE list \<Rightarrow> DWORD \<Rightarrow> BYTE list option" where
  "VgaReadMemory h s Address Buffer Size =
     (if VgaMiscRegister s AND VGA_MISC_RAM_ENABLED h = 0 then Some Buffer
      else VgaReadMemory_loop h s Address Buffer Size 0)"

text \<open>
  \<^verbatim>\<open>VgaWriteMemory\<close>: the body of the loop over the planes \<open>j\<close>, that loop, the loop over
  the bytes \<open>i\<close>, and the function with its two guards.
\<close>

definition VgaWriteMemory_plane ::
  "vga_h \<Rightarrow> vga_state \<Rightarrow> DWORD \<Rightarrow> BYTE list \<Rightarrow> nat \<Rightarrow> DWORD \<Rightarrow> nat \<Rightarrow> vga_state option" where
  "VgaWriteMemory_plane h s Address Buffer i VideoAddress j =
     (if VgaSeqRegisters s (VGA_SEQ_MASK_REG h) AND push_bit j 1 = 0 then Some s
      else if VgaSeqRegisters s (VGA_SEQ_MEM_REG h) AND VGA_SEQ_MEM_C4 h \<noteq> 0
              \<and> (Address + of_nat i) AND 3 \<noteq> of_nat j then Some s
      else if VgaGcRegisters s (VGA_GC_MODE_REG h) AND VGA_GC_MODE_OE h \<noteq> 0
              \<and> (Address + of_nat i) AND 1 \<noteq> of_nat j AND 1 then Some s
      else (let k = unat (VideoAddress + of_nat j * of_nat VGA_BANK_SIZE)
            in if k < VGA_NUM_BANKS * VGA_BANK_SIZE \<and> i < length Buffer
               then Some (s\<lparr>VgaMemory := (VgaMemory s)(k := Buffer ! i)\<rparr>)
               else None))"

function VgaWriteMemory_planes ::
  "vga_h \<Rightarrow> vga_state \<Rightarrow> DWORD \<Rightarrow> BYTE list \<Rightarrow> nat \<Rightarrow> DWORD \<Rightarrow> nat \<Rightarrow> vga_state option" where
  "VgaWriteMemory_planes h s Address Buffer i VideoAddress j =
     (if j < VGA_NUM_BANKS then
        (case VgaWriteMemory_plane h s Address Buffer i VideoAddress j of
           None \<Rightarrow> None
         | Some s1 \<Rightarrow> VgaWriteMemory_planes h s1 Address Buffer i VideoAddress (j + 1))
      else Some s)"
  by pat_completeness auto
termination
  by (relation "measure (\<lambda>(h, s, Address, Buffer, i, VideoAddress, j). VGA_NUM_BANKS - j)") auto

function VgaWriteMemory_loop ::
  "vga_h \<Rightarrow> vga_state \<Rightarrow> DWORD \<Rightarrow> BYTE list \<Rightarrow> DWORD \<Rightarrow> nat \<Rightarrow> vga_state option" where
  "VgaWriteMemory_loop h s Address Buffer Size i =
     (if i < unat Size then
        (case VgaWriteMemory_planes h s Address Buffer i
                (VgaTranslateWriteAddress h s (Address + of_nat i)) 0 of
           None \<Rightarrow> None
         | Some s1 \<Rightarrow> VgaWriteMemory_loop h s1 Address Buffer Size (i + 1))
      else Some s)"
  by pat_completeness auto
termination
  by (relation "measure (\<lambda>(h, s, Address, Buffer, Size, i). unat Size - i)") auto

definition VgaWriteMemory ::
  "vga_h \<Rightarrow> vga_state \<Rightarrow> DWORD \<Rightarrow> BYTE list \<Rightarrow> DWORD \<Rightarrow> vga_state option" where
  "VgaWriteMemory h s Address Buffer Size =
     (if VgaMiscRegister s AND VGA_MISC_RAM_ENABLED h = 0 then Some s
      else if VgaSeqRegisters s (VGA_SEQ_MASK_REG h) AND 0x0F = 0x00 then Some s
      else VgaWriteMemory_loop h s Address Buffer Size 0)"

subsection \<open>Ports\<close>

text \<open>\<^verbatim>\<open>VgaReadPort\<close> returns the byte read and the state after the read.\<close>

definition VgaReadPort :: "vga_h \<Rightarrow> vga_state \<Rightarrow> WORD \<Rightarrow> BYTE \<times> vga_state" where
  "VgaReadPort h s Port =
     (if Port = VGA_AC_INDEX h then (VgaAcIndex s, s)
      else if Port = VGA_AC_READ h then (VgaAcRegisters s (unat (VgaAcIndex s)), s)
      else if Port = VGA_SEQ_INDEX h then (VgaSeqIndex s, s)
      else if Port = VGA_SEQ_DATA h then (VgaSeqRegisters s (unat (VgaSeqIndex s)), s)
      else if Port = VGA_DAC_READ_INDEX h then (if VgaDacReadWrite s then 0 else 3, s)
      else if Port = VGA_DAC_WRITE_INDEX h then (VgaDacIndex s, s)
      else if Port = VGA_DAC_DATA h then
        (if \<not> VgaDacReadWrite s
         then (VgaDacRegisters s (unat (VgaDacIndex s)),
               s\<lparr>VgaDacIndex := of_nat (unat (VgaDacIndex s + 1) mod VGA_PALETTE_SIZE)\<rparr>)
         else (0, s))
      else if Port = VGA_MISC_READ h then (VgaMiscRegister s, s)
      else if Port = VGA_CRTC_INDEX h then (VgaCrtcIndex s, s)
      else if Port = VGA_CRTC_DATA h then (VgaCrtcRegisters s (unat (VgaCrtcIndex s)), s)
      else if Port = VGA_GC_INDEX h then (VgaGcIndex s, s)
      else if Port = VGA_GC_DATA h then (VgaGcRegisters s (unat (VgaGcIndex s)), s)
      else if Port = VGA_STAT_MONO h \<or> Port = VGA_STAT_COLOR h then
        (let Result = 0;
             Result = (if InVerticalRetrace s \<or> InHorizontalRetrace s
                       then Result OR VGA_STAT_DD h else Result);
             Result = (if InVerticalRetrace s then Result OR VGA_STAT_VRETRACE h else Result)
         in (Result,
             s\<lparr>VgaAcLatch := False, InHorizontalRetrace := False, InVerticalRetrace := False\<rparr>))
      else (0, s))"

definition VgaWritePort :: "vga_h \<Rightarrow> vga_state \<Rightarrow> WORD \<Rightarrow> BYTE \<Rightarrow> vga_state" where
  "VgaWritePort h s Port Data =
     (if Port = VGA_AC_INDEX h then
        (let s1 = (if \<not> VgaAcLatch s
                   then (if unat Data < VGA_AC_MAX_REG h then s\<lparr>VgaAcIndex := Data\<rparr> else s)
                   else VgaWriteAc h s Data)
         in s1\<lparr>VgaAcLatch := \<not> VgaAcLatch s1\<rparr>)
      else if Port = VGA_SEQ_INDEX h then
        (if unat Data < VGA_SEQ_MAX_REG h then s\<lparr>VgaSeqIndex := Data\<rparr> else s)
      else if Port = VGA_SEQ_DATA h then VgaWriteSequencer h s Data
      else if Port = VGA_DAC_READ_INDEX h then
        s\<lparr>VgaDacReadWrite := False, VgaDacIndex := of_nat (unat Data mod VGA_PALETTE_SIZE)\<rparr>
      else if Port = VGA_DAC_WRITE_INDEX h then
        s\<lparr>VgaDacReadWrite := True, VgaDacIndex := of_nat (unat Data mod VGA_PALETTE_SIZE)\<rparr>
      else if Port = VGA_DAC_DATA h then
        (if VgaDacReadWrite s then VgaWriteDac s (Data AND 0x3F) else s)
      else if Port = VGA_MISC_WRITE h then s\<lparr>VgaMiscRegister := Data\<rparr>
      else if Port = VGA_CRTC_INDEX h then
        (if unat Data < VGA_CRTC_MAX_REG h then s\<lparr>VgaCrtcIndex := Data\<rparr> else s)
      else if Port = VGA_CRTC_DATA h then VgaWriteCrtc h s Data
      else if Port = VGA_GC_INDEX h then
        (if unat Data < VGA_GC_MAX_REG h then s\<lparr>VgaGcIndex := Data\<rparr> else s)
      else if Port = VGA_GC_DATA h then VgaWriteGc h s Data
      else s)"

subsection \<open>What the theorems need of vga.h\<close>

text \<open>
  The case labels of the \<^verbatim>\<open>switch\<close> in \<^verbatim>\<open>VgaReadPort\<close> and of the one in \<^verbatim>\<open>VgaWritePort\<close>,
  in the order of the source. C refuses a \<^verbatim>\<open>switch\<close> with two equal labels, so the labels of
  each are pairwise distinct in any header that the file compiles with.
\<close>

definition read_ports :: "vga_h \<Rightarrow> WORD list" where
  "read_ports h =
     [VGA_AC_INDEX h, VGA_AC_READ h, VGA_SEQ_INDEX h, VGA_SEQ_DATA h, VGA_DAC_READ_INDEX h,
      VGA_DAC_WRITE_INDEX h, VGA_DAC_DATA h, VGA_MISC_READ h, VGA_CRTC_INDEX h,
      VGA_CRTC_DATA h, VGA_GC_INDEX h, VGA_GC_DATA h, VGA_STAT_MONO h, VGA_STAT_COLOR h]"

definition write_ports :: "vga_h \<Rightarrow> WORD list" where
  "write_ports h =
     [VGA_AC_INDEX h, VGA_SEQ_INDEX h, VGA_SEQ_DATA h, VGA_DAC_READ_INDEX h,
      VGA_DAC_WRITE_INDEX h, VGA_DAC_DATA h, VGA_MISC_WRITE h, VGA_CRTC_INDEX h,
      VGA_CRTC_DATA h, VGA_GC_INDEX h, VGA_GC_DATA h]"

definition ports_ok :: "vga_h \<Rightarrow> bool" where
  "ports_ok h \<longleftrightarrow> distinct (read_ports h) \<and> distinct (write_ports h)"

text \<open>
  The registers that the file names, bank by bank. In a well-formed header the registers of
  a bank are different indices below the bank's register count, and the count fits the
  \<^verbatim>\<open>BYTE\<close> that holds the bank's index.
\<close>

definition seq_regs :: "vga_h \<Rightarrow> nat list" where
  "seq_regs h =
     [VGA_SEQ_RESET_REG h, VGA_SEQ_CLOCK_REG h, VGA_SEQ_MASK_REG h, VGA_SEQ_MEM_REG h]"

definition gc_regs :: "vga_h \<Rightarrow> nat list" where
  "gc_regs h =
     [VGA_GC_RESET_REG h, VGA_GC_READ_MAP_SEL_REG h, VGA_GC_MODE_REG h, VGA_GC_MISC_REG h]"

definition crtc_regs :: "vga_h \<Rightarrow> nat list" where
  "crtc_regs h =
     [VGA_CRTC_HORZ_TOTAL_REG h, VGA_CRTC_END_HORZ_DISP_REG h, VGA_CRTC_OVERFLOW_REG h,
      VGA_CRTC_MAX_SCAN_LINE_REG h, VGA_CRTC_CURSOR_START_REG h, VGA_CRTC_CURSOR_END_REG h,
      VGA_CRTC_CURSOR_LOC_HIGH_REG h, VGA_CRTC_CURSOR_LOC_LOW_REG h,
      VGA_CRTC_VERT_DISP_END_REG h, VGA_CRTC_UNDERLINE_REG h, VGA_CRTC_MODE_CONTROL_REG h]"

definition ac_regs :: "vga_h \<Rightarrow> nat list" where
  "ac_regs h = [VGA_AC_PAL_0_REG h, VGA_AC_CONTROL_REG h]"

definition regs_ok :: "vga_h \<Rightarrow> bool" where
  "regs_ok h \<longleftrightarrow>
     VGA_SEQ_MAX_REG h \<le> 256 \<and> VGA_GC_MAX_REG h \<le> 256 \<and>
     VGA_CRTC_MAX_REG h \<le> 256 \<and> VGA_AC_MAX_REG h \<le> 256 \<and>
     list_all (\<lambda>r. r < VGA_SEQ_MAX_REG h) (seq_regs h) \<and> distinct (seq_regs h) \<and>
     list_all (\<lambda>r. r < VGA_GC_MAX_REG h) (gc_regs h) \<and> distinct (gc_regs h) \<and>
     list_all (\<lambda>r. r < VGA_CRTC_MAX_REG h) (crtc_regs h) \<and> distinct (crtc_regs h) \<and>
     list_all (\<lambda>r. r < VGA_AC_MAX_REG h) (ac_regs h) \<and> distinct (ac_regs h)"

text \<open>
  One such header, for evaluating the functions on concrete inputs: the port map, the
  register numbers and the bits of the IBM VGA, the hardware that the file emulates.
\<close>

definition vga_h_std :: vga_h where
  "vga_h_std =
     \<lparr>VGA_AC_INDEX = 0x3C0, VGA_AC_READ = 0x3C1, VGA_SEQ_INDEX = 0x3C4, VGA_SEQ_DATA = 0x3C5,
      VGA_DAC_READ_INDEX = 0x3C7, VGA_DAC_WRITE_INDEX = 0x3C8, VGA_DAC_DATA = 0x3C9,
      VGA_MISC_READ = 0x3CC, VGA_MISC_WRITE = 0x3C2, VGA_CRTC_INDEX = 0x3D4,
      VGA_CRTC_DATA = 0x3D5, VGA_GC_INDEX = 0x3CE, VGA_GC_DATA = 0x3CF,
      VGA_STAT_MONO = 0x3BA, VGA_STAT_COLOR = 0x3DA,
      VGA_SEQ_RESET_REG = 0, VGA_SEQ_CLOCK_REG = 1, VGA_SEQ_MASK_REG = 2, VGA_SEQ_MEM_REG = 4,
      VGA_SEQ_MAX_REG = 5,
      VGA_GC_RESET_REG = 0, VGA_GC_READ_MAP_SEL_REG = 4, VGA_GC_MODE_REG = 5,
      VGA_GC_MISC_REG = 6, VGA_GC_MAX_REG = 9,
      VGA_CRTC_HORZ_TOTAL_REG = 0, VGA_CRTC_END_HORZ_DISP_REG = 1, VGA_CRTC_OVERFLOW_REG = 7,
      VGA_CRTC_MAX_SCAN_LINE_REG = 9, VGA_CRTC_CURSOR_START_REG = 10,
      VGA_CRTC_CURSOR_END_REG = 11, VGA_CRTC_CURSOR_LOC_HIGH_REG = 14,
      VGA_CRTC_CURSOR_LOC_LOW_REG = 15, VGA_CRTC_START_ADDR_HIGH_REG = 12,
      VGA_CRTC_START_ADDR_LOW_REG = 13, VGA_CRTC_OFFSET_REG = 19,
      VGA_CRTC_VERT_DISP_END_REG = 18,
      VGA_CRTC_UNDERLINE_REG = 20, VGA_CRTC_MODE_CONTROL_REG = 23, VGA_CRTC_MAX_REG = 25,
      VGA_AC_PAL_0_REG = 0, VGA_AC_CONTROL_REG = 16, VGA_AC_MAX_REG = 21,
      VGA_MISC_RAM_ENABLED = 0x02, VGA_STAT_DD = 0x01, VGA_STAT_VRETRACE = 0x08,
      VGA_SEQ_CLOCK_98DM = 0x01, VGA_SEQ_MEM_C4 = 0x08, VGA_GC_MODE_OE = 0x10,
      VGA_GC_MODE_SHIFTREG = 0x20, VGA_GC_MODE_SHIFT256 = 0x40,
      VGA_GC_MISC_NOALPHA = 0x01, VGA_CRTC_OVERFLOW_VDE8 = 0x02, VGA_CRTC_OVERFLOW_VDE9 = 0x40,
      VGA_CRTC_UNDERLINE_DWORD = 0x40, VGA_CRTC_MODE_CONTROL_BYTE = 0x40,
      VGA_AC_CONTROL_8BIT = 0x40\<rparr>"

subsection \<open>Sequences of calls\<close>

text \<open>A guest program's port writes, one call of \<^verbatim>\<open>VgaWritePort\<close> after the other.\<close>

fun VgaWritePorts :: "vga_h \<Rightarrow> vga_state \<Rightarrow> (WORD \<times> BYTE) list \<Rightarrow> vga_state" where
  "VgaWritePorts h s [] = s"
| "VgaWritePorts h s ((Port, Data) # ws) = VgaWritePorts h (VgaWritePort h s Port Data) ws"

text \<open>
  The register sequence of the spec's scenario S2. A register of an indexed bank is written
  by its number to the index port and the value to the data port; the attribute controller
  takes both on \<^verbatim>\<open>VGA_AC_INDEX\<close>.
\<close>

definition S2_sequence :: "vga_h \<Rightarrow> BYTE \<Rightarrow> BYTE \<Rightarrow> BYTE \<Rightarrow> (WORD \<times> BYTE) list" where
  "S2_sequence h gc_misc seq_clock ac_control =
     [(VGA_GC_INDEX h, of_nat (VGA_GC_MISC_REG h)), (VGA_GC_DATA h, gc_misc),
      (VGA_SEQ_INDEX h, of_nat (VGA_SEQ_CLOCK_REG h)), (VGA_SEQ_DATA h, seq_clock),
      (VGA_AC_INDEX h, of_nat (VGA_AC_CONTROL_REG h)), (VGA_AC_INDEX h, ac_control),
      (VGA_CRTC_INDEX h, of_nat (VGA_CRTC_END_HORZ_DISP_REG h)), (VGA_CRTC_DATA h, 39),
      (VGA_CRTC_INDEX h, of_nat (VGA_CRTC_VERT_DISP_END_REG h)), (VGA_CRTC_DATA h, 199),
      (VGA_CRTC_INDEX h, of_nat (VGA_CRTC_MAX_SCAN_LINE_REG h)), (VGA_CRTC_DATA h, 1),
      (VGA_CRTC_INDEX h, of_nat (VGA_CRTC_OVERFLOW_REG h)), (VGA_CRTC_DATA h, 0)]"

text \<open>
  The states that calls of \<^verbatim>\<open>VgaWritePort\<close>, \<^verbatim>\<open>VgaReadPort\<close>, \<^verbatim>\<open>VgaWriteMemory\<close>,
  \<^verbatim>\<open>VgaRefreshDisplay\<close> and \<^verbatim>\<open>VgaHorizontalRetrace\<close> reach from the initial one; a call
  that does not return reaches no state. \<^verbatim>\<open>VgaReadMemory\<close> changes no state;
  \<^verbatim>\<open>VgaInitialize\<close> is left out, since it calls \<^verbatim>\<open>BiosSetVideoMode\<close>, which is not among
  the sources.
\<close>

inductive reachable :: "vga_h \<Rightarrow> vga_state \<Rightarrow> bool" for h :: vga_h where
  reach_init: "reachable h (vga_init h)"
| reach_write_port: "reachable h s \<Longrightarrow> reachable h (VgaWritePort h s Port Data)"
| reach_read_port: "reachable h s \<Longrightarrow> reachable h (snd (VgaReadPort h s Port))"
| reach_write_memory:
    "reachable h s \<Longrightarrow> VgaWriteMemory h s Address Buffer Size = Some s1 \<Longrightarrow> reachable h s1"
| reach_refresh: "reachable h s \<Longrightarrow> VgaRefreshDisplay h ho s = Some s1 \<Longrightarrow> reachable h s1"
| reach_retrace: "reachable h s \<Longrightarrow> reachable h (VgaHorizontalRetrace s)"

definition indices_ok :: "vga_h \<Rightarrow> vga_state \<Rightarrow> bool" where
  "indices_ok h s \<longleftrightarrow>
     unat (VgaSeqIndex s) < VGA_SEQ_MAX_REG h \<and> unat (VgaGcIndex s) < VGA_GC_MAX_REG h \<and>
     unat (VgaCrtcIndex s) < VGA_CRTC_MAX_REG h \<and> unat (VgaAcIndex s) < VGA_AC_MAX_REG h"

text \<open>
  An example state: video RAM enabled, all four planes writable, chain-4 addressing (the
  sequencer as video mode 13h programs it), set up by port writes from the initial state.
\<close>

definition mode13_example :: vga_state where
  "mode13_example =
     VgaWritePorts vga_h_std (vga_init vga_h_std)
       [(0x3C2, 0x02), (0x3C4, 2), (0x3C5, 0x0F), (0x3C4, 4), (0x3C5, 0x0E)]"

text \<open>
  Another example state: video RAM enabled, plane 0 alone writable, and everything else as
  initialised (no chain-4, no odd-even, word addressing, the aperture at A0000h).
\<close>

definition planar_example :: vga_state where
  "planar_example =
     VgaWritePorts vga_h_std (vga_init vga_h_std) [(0x3C2, 0x02), (0x3C4, 2), (0x3C5, 0x01)]"

section \<open>Properties\<close>

subsection \<open>Port dispatch\<close>

lemma ports_ok_std: "ports_ok vga_h_std"
  by (simp add: ports_ok_def read_ports_def write_ports_def vga_h_std_def)

lemma regs_ok_std: "regs_ok vga_h_std"
  by (simp add: regs_ok_def seq_regs_def gc_regs_def crtc_regs_def ac_regs_def vga_h_std_def)

lemma read_ports_rev: "ports_ok h \<Longrightarrow> distinct (rev (read_ports h))"
  by (simp add: ports_ok_def)

lemma write_ports_rev: "ports_ok h \<Longrightarrow> distinct (rev (write_ports h))"
  by (simp add: ports_ok_def)

lemma VgaReadPort_DAC_READ_INDEX:
  assumes "ports_ok h"
  shows "VgaReadPort h s (VGA_DAC_READ_INDEX h) = (if VgaDacReadWrite s then 0 else 3, s)"
  using read_ports_rev [OF assms]
  by (simp add: VgaReadPort_def read_ports_def del: distinct_rev)

lemma VgaReadPort_DAC_DATA:
  assumes "ports_ok h"
  shows "VgaReadPort h s (VGA_DAC_DATA h) =
     (if \<not> VgaDacReadWrite s
      then (VgaDacRegisters s (unat (VgaDacIndex s)),
            s\<lparr>VgaDacIndex := of_nat (unat (VgaDacIndex s + 1) mod VGA_PALETTE_SIZE)\<rparr>)
      else (0, s))"
  using read_ports_rev [OF assms]
  by (simp add: VgaReadPort_def read_ports_def del: distinct_rev)

lemma VgaReadPort_STAT:
  assumes "ports_ok h" and "Port = VGA_STAT_MONO h \<or> Port = VGA_STAT_COLOR h"
  shows "VgaReadPort h s Port =
     ((if InVerticalRetrace s \<or> InHorizontalRetrace s then VGA_STAT_DD h else 0)
        OR (if InVerticalRetrace s then VGA_STAT_VRETRACE h else 0),
      s\<lparr>VgaAcLatch := False, InHorizontalRetrace := False, InVerticalRetrace := False\<rparr>)"
proof -
  note d = read_ports_rev [OF assms(1)]
  from assms(2) show ?thesis
  proof
    assume "Port = VGA_STAT_MONO h"
    with d show ?thesis
      by (simp add: VgaReadPort_def read_ports_def Let_def del: distinct_rev)
  next
    assume "Port = VGA_STAT_COLOR h"
    with d show ?thesis
      by (simp add: VgaReadPort_def read_ports_def Let_def del: distinct_rev)
  qed
qed

lemma VgaWritePort_AC_INDEX:
  "VgaWritePort h s (VGA_AC_INDEX h) Data =
     (if \<not> VgaAcLatch s
      then (if unat Data < VGA_AC_MAX_REG h then s\<lparr>VgaAcIndex := Data\<rparr> else s)
             \<lparr>VgaAcLatch := True\<rparr>
      else (VgaWriteAc h s Data)\<lparr>VgaAcLatch := False\<rparr>)"
  by (simp add: VgaWritePort_def VgaWriteAc_def Let_def)

lemma VgaWritePort_SEQ_INDEX:
  assumes "ports_ok h"
  shows "VgaWritePort h s (VGA_SEQ_INDEX h) Data =
     (if unat Data < VGA_SEQ_MAX_REG h then s\<lparr>VgaSeqIndex := Data\<rparr> else s)"
  using write_ports_rev [OF assms]
  by (simp add: VgaWritePort_def write_ports_def del: distinct_rev)

lemma VgaWritePort_SEQ_DATA:
  assumes "ports_ok h"
  shows "VgaWritePort h s (VGA_SEQ_DATA h) Data = VgaWriteSequencer h s Data"
  using write_ports_rev [OF assms]
  by (simp add: VgaWritePort_def write_ports_def del: distinct_rev)

lemma VgaWritePort_DAC_READ_INDEX:
  assumes "ports_ok h"
  shows "VgaWritePort h s (VGA_DAC_READ_INDEX h) Data =
     s\<lparr>VgaDacReadWrite := False, VgaDacIndex := of_nat (unat Data mod VGA_PALETTE_SIZE)\<rparr>"
  using write_ports_rev [OF assms]
  by (simp add: VgaWritePort_def write_ports_def del: distinct_rev)

lemma VgaWritePort_DAC_WRITE_INDEX:
  assumes "ports_ok h"
  shows "VgaWritePort h s (VGA_DAC_WRITE_INDEX h) Data =
     s\<lparr>VgaDacReadWrite := True, VgaDacIndex := of_nat (unat Data mod VGA_PALETTE_SIZE)\<rparr>"
  using write_ports_rev [OF assms]
  by (simp add: VgaWritePort_def write_ports_def del: distinct_rev)

lemma VgaWritePort_DAC_DATA:
  assumes "ports_ok h"
  shows "VgaWritePort h s (VGA_DAC_DATA h) Data =
     (if VgaDacReadWrite s then VgaWriteDac s (Data AND 0x3F) else s)"
  using write_ports_rev [OF assms]
  by (simp add: VgaWritePort_def write_ports_def del: distinct_rev)

lemma VgaWritePort_CRTC_INDEX:
  assumes "ports_ok h"
  shows "VgaWritePort h s (VGA_CRTC_INDEX h) Data =
     (if unat Data < VGA_CRTC_MAX_REG h then s\<lparr>VgaCrtcIndex := Data\<rparr> else s)"
  using write_ports_rev [OF assms]
  by (simp add: VgaWritePort_def write_ports_def del: distinct_rev)

lemma VgaWritePort_CRTC_DATA:
  assumes "ports_ok h"
  shows "VgaWritePort h s (VGA_CRTC_DATA h) Data = VgaWriteCrtc h s Data"
  using write_ports_rev [OF assms]
  by (simp add: VgaWritePort_def write_ports_def del: distinct_rev)

lemma VgaWritePort_GC_INDEX:
  assumes "ports_ok h"
  shows "VgaWritePort h s (VGA_GC_INDEX h) Data =
     (if unat Data < VGA_GC_MAX_REG h then s\<lparr>VgaGcIndex := Data\<rparr> else s)"
  using write_ports_rev [OF assms]
  by (simp add: VgaWritePort_def write_ports_def del: distinct_rev)

lemma VgaWritePort_GC_DATA:
  assumes "ports_ok h"
  shows "VgaWritePort h s (VGA_GC_DATA h) Data = VgaWriteGc h s Data"
  using write_ports_rev [OF assms]
  by (simp add: VgaWritePort_def write_ports_def del: distinct_rev)

subsection \<open>The DAC state port\<close>

text \<open>
  C2, as the claim states it: reading \<^verbatim>\<open>VGA_DAC_READ_INDEX\<close> returns 0 when the DAC is in read
  mode. It fails: a write to \<^verbatim>\<open>VGA_DAC_READ_INDEX\<close> puts the DAC in read mode
  (\<^verbatim>\<open>VgaDacReadWrite = FALSE\<close>), and the read that follows returns 3.
\<close>

theorem dac_state_read_counterexample:
  "\<not> VgaDacReadWrite
        (VgaWritePort vga_h_std (vga_init vga_h_std) (VGA_DAC_READ_INDEX vga_h_std) 0)
   \<and> fst (VgaReadPort vga_h_std
             (VgaWritePort vga_h_std (vga_init vga_h_std) (VGA_DAC_READ_INDEX vga_h_std) 0)
             (VGA_DAC_READ_INDEX vga_h_std)) \<noteq> 0"
  by (simp add: VgaReadPort_DAC_READ_INDEX VgaWritePort_DAC_READ_INDEX ports_ok_std)

text \<open>
  C2, amended: for every state, reading \<^verbatim>\<open>VGA_DAC_READ_INDEX\<close> leaves the state as it is and
  returns 0 when the DAC direction flag is in write mode (\<^verbatim>\<open>VgaDacReadWrite\<close> set, as after a
  write to \<^verbatim>\<open>VGA_DAC_WRITE_INDEX\<close>) and 3 when it is in read mode (the flag clear, as after a
  write to \<^verbatim>\<open>VGA_DAC_READ_INDEX\<close>).
\<close>

theorem dac_state_read:
  assumes "ports_ok h"
  shows "VgaReadPort h s (VGA_DAC_READ_INDEX h) = (if VgaDacReadWrite s then 0 else 3, s)
    \<and> fst (VgaReadPort h (VgaWritePort h s (VGA_DAC_READ_INDEX h) k) (VGA_DAC_READ_INDEX h)) = 3
    \<and> fst (VgaReadPort h (VgaWritePort h s (VGA_DAC_WRITE_INDEX h) k) (VGA_DAC_READ_INDEX h)) = 0"
  using assms
  by (simp add: VgaReadPort_DAC_READ_INDEX VgaWritePort_DAC_READ_INDEX
      VgaWritePort_DAC_WRITE_INDEX)

theorem dac_state_read_witness:
  "ports_ok vga_h_std
   \<and> VgaReadPort vga_h_std (vga_init vga_h_std) 0x3C7 = (3, vga_init vga_h_std)
   \<and> fst (VgaReadPort vga_h_std (VgaWritePort vga_h_std (vga_init vga_h_std) 0x3C7 5) 0x3C7) = 3
   \<and> fst (VgaReadPort vga_h_std (VgaWritePort vga_h_std (vga_init vga_h_std) 0x3C8 5) 0x3C7) = 0"
proof -
  have p: "VGA_DAC_READ_INDEX vga_h_std = 0x3C7" "VGA_DAC_WRITE_INDEX vga_h_std = 0x3C8"
    by (simp_all add: vga_h_std_def)
  have r: "\<not> VgaDacReadWrite (vga_init vga_h_std)" by (simp add: vga_init_def)
  from dac_state_read [OF ports_ok_std, of "vga_init vga_h_std" 5] ports_ok_std r
  show ?thesis by (simp add: p)
qed

subsection \<open>Reading the DAC data port in write mode\<close>

text \<open>
  C10: reading \<^verbatim>\<open>VGA_DAC_DATA\<close> while the DAC direction flag is in write mode returns 0 and
  leaves the DAC index and the DAC registers, and the rest of the state, unchanged.
\<close>

theorem dac_data_read_in_write_mode:
  assumes "ports_ok h" and "VgaDacReadWrite s"
  shows "VgaReadPort h s (VGA_DAC_DATA h) = (0, s)"
  using assms by (simp add: VgaReadPort_DAC_DATA)

theorem dac_data_read_in_write_mode_witness:
  "ports_ok vga_h_std
   \<and> VgaDacReadWrite (VgaWritePort vga_h_std (vga_init vga_h_std) 0x3C8 7)
   \<and> VgaReadPort vga_h_std (VgaWritePort vga_h_std (vga_init vga_h_std) 0x3C8 7)
         (VGA_DAC_DATA vga_h_std)
       = (0, VgaWritePort vga_h_std (vga_init vga_h_std) 0x3C8 7)"
proof -
  have w: "VgaDacReadWrite (VgaWritePort vga_h_std (vga_init vga_h_std) 0x3C8 7)"
    by (simp add: VgaWritePort_def vga_h_std_def)
  from dac_data_read_in_write_mode [OF ports_ok_std w] ports_ok_std w
  show ?thesis by simp
qed

subsection \<open>The retrace flags in the status register\<close>

text \<open>
  C7: after \<^verbatim>\<open>VgaHorizontalRetrace\<close> the next read of \<^verbatim>\<open>VGA_STAT_COLOR\<close> returns a byte with
  the DD bit set, a second read right after it a byte with DD clear; and every read of a
  status port clears both retrace flags. (DD is a bit of the header: not zero.)
\<close>

theorem retrace_status:
  assumes "ports_ok h" and "VGA_STAT_DD h \<noteq> 0"
    and "Port = VGA_STAT_MONO h \<or> Port = VGA_STAT_COLOR h"
  shows "(case VgaReadPort h (VgaHorizontalRetrace s) (VGA_STAT_COLOR h) of
           (r1, s1) \<Rightarrow> r1 AND VGA_STAT_DD h = VGA_STAT_DD h \<and> r1 AND VGA_STAT_DD h \<noteq> 0
             \<and> (case VgaReadPort h s1 (VGA_STAT_COLOR h) of
                   (r2, s2) \<Rightarrow> r2 AND VGA_STAT_DD h = 0))
    \<and> \<not> InHorizontalRetrace (snd (VgaReadPort h s Port))
    \<and> \<not> InVerticalRetrace (snd (VgaReadPort h s Port))"
  using assms
  by (simp add: VgaReadPort_STAT VgaHorizontalRetrace_def word_bw_assocs word_bw_comms
      word_bw_lcs)

theorem retrace_status_witness:
  "ports_ok vga_h_std \<and> VGA_STAT_DD vga_h_std \<noteq> 0
   \<and> (case VgaReadPort vga_h_std (VgaHorizontalRetrace (vga_init vga_h_std)) 0x3DA of
           (r1, s1) \<Rightarrow> r1 AND 1 = 1 \<and> r1 AND 1 \<noteq> 0
             \<and> (case VgaReadPort vga_h_std s1 0x3DA of (r2, s2) \<Rightarrow> r2 AND 1 = 0))
   \<and> \<not> InHorizontalRetrace (snd (VgaReadPort vga_h_std (vga_init vga_h_std) 0x3DA))
   \<and> \<not> InVerticalRetrace (snd (VgaReadPort vga_h_std (vga_init vga_h_std) 0x3DA))"
proof -
  have p: "VGA_STAT_COLOR vga_h_std = 0x3DA" "VGA_STAT_DD vga_h_std = 1"
    by (simp_all add: vga_h_std_def)
  have d: "VGA_STAT_DD vga_h_std \<noteq> 0" by (simp add: p)
  have c: "(0x3DA :: WORD) = VGA_STAT_MONO vga_h_std \<or> (0x3DA :: WORD) = VGA_STAT_COLOR vga_h_std"
    by (simp add: p)
  from retrace_status [OF ports_ok_std d c, where s = "vga_init vga_h_std"] ports_ok_std d
  show ?thesis by (simp add: p)
qed

subsection \<open>Memory access while disabled\<close>

text \<open>
  C8: when \<^verbatim>\<open>VGA_MISC_RAM_ENABLED\<close> is clear in the Misc register, \<^verbatim>\<open>VgaReadMemory\<close> returns
  the caller's buffer as it was (it is not zero-filled) and \<^verbatim>\<open>VgaWriteMemory\<close> returns the
  state as it was; \<^verbatim>\<open>VgaWriteMemory\<close> also returns the state as it was whenever the low
  nibble of the plane mask is zero. (\<^verbatim>\<open>VgaReadMemory\<close> writes no global at all, so its model
  returns the buffer only.)
\<close>

theorem ram_disabled_noop:
  "(VgaMiscRegister s AND VGA_MISC_RAM_ENABLED h = 0 \<longrightarrow>
      VgaReadMemory h s Address Buffer Size = Some Buffer
      \<and> VgaWriteMemory h s Address Buffer Size = Some s)
   \<and> (VgaSeqRegisters s (VGA_SEQ_MASK_REG h) AND 0x0F = 0 \<longrightarrow>
      VgaWriteMemory h s Address Buffer Size = Some s)"
  by (simp add: VgaReadMemory_def VgaWriteMemory_def)

theorem ram_disabled_noop_witness:
  "VgaMiscRegister (vga_init vga_h_std) AND VGA_MISC_RAM_ENABLED vga_h_std = 0
   \<and> VgaSeqRegisters (vga_init vga_h_std) (VGA_SEQ_MASK_REG vga_h_std) AND 0x0F = 0
   \<and> VgaReadMemory vga_h_std (vga_init vga_h_std) 0xA0000 (replicate 64 0xAA) 64
        = Some (replicate 64 0xAA)
   \<and> VgaWriteMemory vga_h_std (vga_init vga_h_std) 0xA0000 (replicate 64 0x55) 64
        = Some (vga_init vga_h_std)"
proof -
  have a: "VgaMiscRegister (vga_init vga_h_std) AND VGA_MISC_RAM_ENABLED vga_h_std = 0"
    by (simp add: vga_init_def)
  have b: "VgaSeqRegisters (vga_init vga_h_std) (VGA_SEQ_MASK_REG vga_h_std) AND 0x0F = 0"
    by (simp add: vga_init_def)
  from ram_disabled_noop [where s = "vga_init vga_h_std" and h = vga_h_std
      and Address = "0xA0000" and Buffer = "replicate 64 0xAA" and Size = "64"]
    ram_disabled_noop [where s = "vga_init vga_h_std" and h = vga_h_std
      and Address = "0xA0000" and Buffer = "replicate 64 0x55" and Size = "64"] a b
  show ?thesis by simp
qed

subsection \<open>Words\<close>

lemma int_and3: "(k :: int) AND 3 = k mod 4"
proof -
  have "(3 :: int) = mask 2" by (simp add: mask_eq_exp_minus_1)
  then have "k AND 3 = take_bit 2 k" by (simp add: take_bit_eq_mask)
  then show ?thesis by (simp add: take_bit_eq_mod)
qed

lemma sub_base_and3:
  "(x - 0xA0000 :: DWORD) AND 3 = x AND 3"
  "(x - 0xB0000 :: DWORD) AND 3 = x AND 3"
  "(x - 0xB8000 :: DWORD) AND 3 = x AND 3"
proof -
  have e: "\<And>k::int. (k - 655360) mod 4 = k mod 4" "\<And>k::int. (k - 720896) mod 4 = k mod 4"
    "\<And>k::int. (k - 753664) mod 4 = k mod 4"
    by presburger+
  show "(x - 0xA0000 :: DWORD) AND 3 = x AND 3" by transfer (simp add: int_and3 e)
  show "(x - 0xB0000 :: DWORD) AND 3 = x AND 3" by transfer (simp add: int_and3 e)
  show "(x - 0xB8000 :: DWORD) AND 3 = x AND 3" by transfer (simp add: int_and3 e)
qed

lemma and3_lt4: "unat (x AND 3 :: BYTE) < 4"
proof -
  have "unat (x AND 3) \<le> unat (3 :: BYTE)"
    by (rule word_and_le1 [THEN word_le_nat_alt [THEN iffD1]])
  then show ?thesis by simp
qed

lemma base_cases:
  "VgaGetVideoBaseAddress h s = 0xA0000 \<or> VgaGetVideoBaseAddress h s = 0xB0000
   \<or> VgaGetVideoBaseAddress h s = 0xB8000"
proof -
  let ?i = "unat (drop_bit 2 (VgaGcRegisters s (VGA_GC_MISC_REG h)) AND 3)"
  have "?i < 4" by (rule and3_lt4)
  then have "?i = 0 \<or> ?i = 1 \<or> ?i = 2 \<or> ?i = 3" by arith
  then show ?thesis
    unfolding VgaGetVideoBaseAddress_def MemoryBase_def by (elim disjE) simp_all
qed

lemma base_and3: "(x - VgaGetVideoBaseAddress h s) AND 3 = x AND 3"
  using base_cases [of h s] by (elim disjE) (simp_all only: sub_base_and3)

lemma offset_lt16:
  assumes "VgaGetVideoBaseAddress h s \<le> A" and "A < VgaGetVideoBaseAddress h s + 16"
  shows "A - VgaGetVideoBaseAddress h s < 16"
  using base_cases [of h s] assms by (elim disjE) unat_arith+

lemma dword_and3_cases: "(x :: DWORD) AND 3 = 0 \<or> x AND 3 = 1 \<or> x AND 3 = 2 \<or> x AND 3 = 3"
proof -
  have "unat (x AND 3) \<le> unat (3 :: DWORD)"
    by (rule word_and_le1 [THEN word_le_nat_alt [THEN iffD1]])
  then have "unat (x AND 3) = 0 \<or> unat (x AND 3) = 1 \<or> unat (x AND 3) = 2 \<or> unat (x AND 3) = 3"
    by simp arith
  then show ?thesis by (simp add: word_unat_eq_iff)
qed

lemma mask_bits:
  fixes m :: BYTE
  assumes "m AND 0x0F = 0x0F"
  shows "m AND 1 \<noteq> 0" "m AND 2 \<noteq> 0" "m AND 4 \<noteq> 0" "m AND 8 \<noteq> 0"
proof -
  have "m AND 1 = (m AND 0x0F) AND 1" "m AND 2 = (m AND 0x0F) AND 2"
    "m AND 4 = (m AND 0x0F) AND 4" "m AND 8 = (m AND 0x0F) AND 8"
    by (simp_all add: word_bw_assocs)
  then show "m AND 1 \<noteq> 0" "m AND 2 \<noteq> 0" "m AND 4 \<noteq> 0" "m AND 8 \<noteq> 0"
    by (simp_all add: assms)
qed

lemma drop2_lt4: "(d :: DWORD) < 16 \<Longrightarrow> drop_bit 2 d < 4"
  by (simp add: drop_bit_eq_div) unat_arith

lemma dword_lt4_cases: "(a :: DWORD) < 4 \<Longrightarrow> a = 0 \<or> a = 1 \<or> a = 2 \<or> a = 3"
  by (simp add: word_less_nat_alt word_unat_eq_iff) arith

lemma index_bound:
  fixes a p sz :: DWORD
  assumes "a < 4" and "p = 0 \<or> p = 1 \<or> p = 2 \<or> p = 3" and "sz = 4 \<or> sz = 1 \<or> sz = 2"
  shows "unat (a * sz + p * 65536) < 262144"
  using dword_lt4_cases [OF assms(1)] assms(2,3) by (elim disjE; simp)

lemma size_cases: "VgaGetAddressSize h s = 4 \<or> VgaGetAddressSize h s = 1 \<or> VgaGetAddressSize h s = 2"
  by (simp add: VgaGetAddressSize_def)
lemma ucast_and3: "ucast (ucast ((x :: DWORD) AND 3) :: BYTE) = x AND 3"
  using dword_and3_cases [of x] by (elim disjE) simp_all

lemma and1_of_and3: "(x :: DWORD) AND 1 = (x AND 3) AND 1"
  by (simp add: word_bw_assocs)

subsection \<open>The loops of the memory functions\<close>

declare VgaWriteMemory_planes.simps [simp del]
declare VgaWriteMemory_loop.simps [simp del]
declare VgaReadMemory_loop.simps [simp del]

lemma planes_step:
  "j < VGA_NUM_BANKS \<Longrightarrow> VgaWriteMemory_planes h s Address Buffer i VA j =
     (case VgaWriteMemory_plane h s Address Buffer i VA j of None \<Rightarrow> None
      | Some s1 \<Rightarrow> VgaWriteMemory_planes h s1 Address Buffer i VA (j + 1))"
  by (subst VgaWriteMemory_planes.simps) simp

lemma planes_stop:
  "\<not> j < VGA_NUM_BANKS \<Longrightarrow> VgaWriteMemory_planes h s Address Buffer i VA j = Some s"
  by (subst VgaWriteMemory_planes.simps) simp

lemma planes_chain4:
  assumes c4: "VgaSeqRegisters s (VGA_SEQ_MEM_REG h) AND VGA_SEQ_MEM_C4 h \<noteq> 0"
    and m: "VgaSeqRegisters s (VGA_SEQ_MASK_REG h) AND 0x0F = 0x0F"
    and k: "unat (VA + ((Address + of_nat i) AND 3) * 65536) < 262144"
    and i: "i < length Buffer"
  shows "VgaWriteMemory_planes h s Address Buffer i VA 0 =
     Some (s\<lparr>VgaMemory := (VgaMemory s)
        (unat (VA + ((Address + of_nat i) AND 3) * 65536) := Buffer ! i)\<rparr>)"
proof -
  note q = and1_of_and3 [of "Address + of_nat i"]
  note b = mask_bits [OF m]
  from dword_and3_cases [of "Address + of_nat i"] show ?thesis
  proof (elim disjE)
    assume p: "(Address + of_nat i) AND 3 = 0"
    with q have q1: "(Address + of_nat i) AND 1 = 0" by simp
    from c4 k i b show ?thesis
      by (simp add: p q1 planes_step planes_stop VgaWriteMemory_plane_def VGA_NUM_BANKS_def
          VGA_BANK_SIZE_def)
  next
    assume p: "(Address + of_nat i) AND 3 = 1"
    with q have q1: "(Address + of_nat i) AND 1 = 1" by simp
    from c4 k i b show ?thesis
      by (simp add: p q1 planes_step planes_stop VgaWriteMemory_plane_def VGA_NUM_BANKS_def
          VGA_BANK_SIZE_def)
  next
    assume p: "(Address + of_nat i) AND 3 = 2"
    with q have q1: "(Address + of_nat i) AND 1 = 0" by simp
    from c4 k i b show ?thesis
      by (simp add: p q1 planes_step planes_stop VgaWriteMemory_plane_def VGA_NUM_BANKS_def
          VGA_BANK_SIZE_def)
  next
    assume p: "(Address + of_nat i) AND 3 = 3"
    with q have q1: "(Address + of_nat i) AND 1 = 1" by simp
    from c4 k i b show ?thesis
      by (simp add: p q1 planes_step planes_stop VgaWriteMemory_plane_def VGA_NUM_BANKS_def
          VGA_BANK_SIZE_def)
  qed
qed

lemma wloop_step:
  "i < unat Size \<Longrightarrow> VgaWriteMemory_loop h s Address Buffer Size i =
     (case VgaWriteMemory_planes h s Address Buffer i
             (VgaTranslateWriteAddress h s (Address + of_nat i)) 0 of
        None \<Rightarrow> None
      | Some s1 \<Rightarrow> VgaWriteMemory_loop h s1 Address Buffer Size (i + 1))"
  by (subst VgaWriteMemory_loop.simps) simp

lemma wloop_stop:
  "\<not> i < unat Size \<Longrightarrow> VgaWriteMemory_loop h s Address Buffer Size i = Some s"
  by (subst VgaWriteMemory_loop.simps) simp

lemma rloop_step:
  "i < unat Size \<Longrightarrow> VgaReadMemory_loop h s Address Buffer Size i =
     (let VideoAddress = VgaTranslateReadAddress h s (Address + of_nat i)
      in if unat VideoAddress < VGA_NUM_BANKS * VGA_BANK_SIZE \<and> i < length Buffer
         then VgaReadMemory_loop h s Address
                (Buffer[i := VgaMemory s (unat VideoAddress)]) Size (i + 1)
         else None)"
  by (subst VgaReadMemory_loop.simps) simp

lemma rloop_stop:
  "\<not> i < unat Size \<Longrightarrow> VgaReadMemory_loop h s Address Buffer Size i = Some Buffer"
  by (subst VgaReadMemory_loop.simps) simp

lemma base_memory [simp]:
  "VgaGetVideoBaseAddress h (s\<lparr>VgaMemory := mm\<rparr>) = VgaGetVideoBaseAddress h s"
  by (simp add: VgaGetVideoBaseAddress_def)

lemma size_memory [simp]:
  "VgaGetAddressSize h (s\<lparr>VgaMemory := mm\<rparr>) = VgaGetAddressSize h s"
  by (simp add: VgaGetAddressSize_def)

text \<open>A memory write changes \<^verbatim>\<open>VgaMemory\<close> and nothing else.\<close>

lemma plane_frame:
  "VgaWriteMemory_plane h s Address Buffer i VA j = Some s1
   \<Longrightarrow> s1 = s\<lparr>VgaMemory := VgaMemory s1\<rparr>"
  by (auto simp: VgaWriteMemory_plane_def Let_def split: if_splits)

lemma planes_frame:
  "VgaWriteMemory_planes h s Address Buffer i VA j = Some s1
   \<Longrightarrow> s1 = s\<lparr>VgaMemory := VgaMemory s1\<rparr>"
proof (induction h s Address Buffer i VA j rule: VgaWriteMemory_planes.induct)
  case (1 h s Address Buffer i VA j)
  show ?case
  proof (cases "j < VGA_NUM_BANKS")
    case True
    with "1.prems" obtain s2
      where a: "VgaWriteMemory_plane h s Address Buffer i VA j = Some s2"
        and b: "VgaWriteMemory_planes h s2 Address Buffer i VA (j + 1) = Some s1"
      by (simp add: planes_step split: option.splits)
    from "1.IH" [OF True a b] have "s1 = s2\<lparr>VgaMemory := VgaMemory s1\<rparr>" .
    moreover from plane_frame [OF a] have "s2 = s\<lparr>VgaMemory := VgaMemory s2\<rparr>" .
    ultimately have "s1 = s\<lparr>VgaMemory := VgaMemory s2\<rparr>\<lparr>VgaMemory := VgaMemory s1\<rparr>"
      by simp
    then show ?thesis by simp
  next
    case False
    with "1.prems" show ?thesis by (simp add: planes_stop)
  qed
qed

lemma wloop_frame:
  "VgaWriteMemory_loop h s Address Buffer Size i = Some s1
   \<Longrightarrow> s1 = s\<lparr>VgaMemory := VgaMemory s1\<rparr>"
proof (induction h s Address Buffer Size i rule: VgaWriteMemory_loop.induct)
  case (1 h s Address Buffer Size i)
  show ?case
  proof (cases "i < unat Size")
    case True
    with "1.prems" obtain s2
      where a: "VgaWriteMemory_planes h s Address Buffer i
                  (VgaTranslateWriteAddress h s (Address + of_nat i)) 0 = Some s2"
        and b: "VgaWriteMemory_loop h s2 Address Buffer Size (i + 1) = Some s1"
      by (simp add: wloop_step split: option.splits)
    from "1.IH" [OF True a b] have "s1 = s2\<lparr>VgaMemory := VgaMemory s1\<rparr>" .
    moreover from planes_frame [OF a] have "s2 = s\<lparr>VgaMemory := VgaMemory s2\<rparr>" .
    ultimately have "s1 = s\<lparr>VgaMemory := VgaMemory s2\<rparr>\<lparr>VgaMemory := VgaMemory s1\<rparr>"
      by simp
    then show ?thesis by simp
  next
    case False
    with "1.prems" show ?thesis by (simp add: wloop_stop)
  qed
qed

lemma VgaWriteMemory_frame:
  "VgaWriteMemory h s Address Buffer Size = Some s1 \<Longrightarrow> s1 = s\<lparr>VgaMemory := VgaMemory s1\<rparr>"
  by (auto simp: VgaWriteMemory_def dest: wloop_frame split: if_splits)

subsection \<open>Chain-4 round trip\<close>

text \<open>
  C3: with the chain-4 bit of the sequencer's memory register set, all four bits of the
  plane mask set and video RAM enabled, for every guest address \<open>A\<close> in
  \<open>[base, base + 16)\<close> and every byte \<open>B\<close>, \<^verbatim>\<open>VgaWriteMemory\<close> of \<open>B\<close> at \<open>A\<close> returns, and
  \<^verbatim>\<open>VgaReadMemory\<close> at \<open>A\<close> in the state it returns gives \<open>B\<close>, whatever the read buffer
  held.
\<close>

theorem chain4_round_trip:
  assumes ram: "VgaMiscRegister s AND VGA_MISC_RAM_ENABLED h \<noteq> 0"
    and c4: "VgaSeqRegisters s (VGA_SEQ_MEM_REG h) AND VGA_SEQ_MEM_C4 h \<noteq> 0"
    and m: "VgaSeqRegisters s (VGA_SEQ_MASK_REG h) AND 0x0F = 0x0F"
    and lo: "VgaGetVideoBaseAddress h s \<le> A"
    and hi: "A < VgaGetVideoBaseAddress h s + 16"
  shows "\<exists>s1. VgaWriteMemory h s A [B] 1 = Some s1
            \<and> VgaReadMemory h s1 A [B0] 1 = Some [B]"
proof -
  let ?d = "A - VgaGetVideoBaseAddress h s"
  let ?VA = "VgaTranslateWriteAddress h s A"
  let ?k = "unat (?VA + (A AND 3) * 65536)"
  let ?s1 = "s\<lparr>VgaMemory := (VgaMemory s)(?k := B)\<rparr>"
  have d16: "?d < 16" by (rule offset_lt16 [OF lo hi])
  have a3: "?d AND 3 = A AND 3" by (rule base_and3)
  have VA: "?VA = drop_bit 2 ?d * VgaGetAddressSize h s"
    using c4 by (simp add: VgaTranslateWriteAddress_def Let_def)
  have kb: "?k < 262144"
    unfolding VA by (rule index_bound [OF drop2_lt4 [OF d16] dword_and3_cases size_cases])
  have pl: "VgaWriteMemory_planes h s A [B] 0 ?VA 0 = Some ?s1"
    using planes_chain4 [OF c4 m, where Address = A and i = 0 and VA = ?VA and Buffer = "[B]"] kb
    by simp
  have w: "VgaWriteMemory h s A [B] 1 = Some ?s1"
    using ram m pl by (simp add: VgaWriteMemory_def wloop_step wloop_stop)
  have r: "VgaTranslateReadAddress h ?s1 A = ?VA + (A AND 3) * 65536"
    using c4 by (simp add: VgaTranslateReadAddress_def Let_def VA ucast_and3 a3
        VGA_BANK_SIZE_def)
  have rd: "VgaReadMemory h ?s1 A [B0] 1 = Some [B]"
    using ram kb
    by (simp add: VgaReadMemory_def rloop_step rloop_stop r Let_def VGA_NUM_BANKS_def
        VGA_BANK_SIZE_def)
  from w rd show ?thesis by blast
qed

lemma mode13_example_regs:
  "VgaMiscRegister mode13_example = 0x02"
  "VgaSeqRegisters mode13_example = (\<lambda>_. 0)(2 := 0x0F, 4 := 0x0E)"
  "VgaGcRegisters mode13_example = (\<lambda>_. 0)"
  "VgaCrtcRegisters mode13_example = (\<lambda>_. 0)"
  by (simp_all add: mode13_example_def VgaWritePort_def VgaWriteSequencer_def vga_h_std_def
      vga_init_def)

theorem chain4_round_trip_witness:
  "VgaMiscRegister mode13_example AND VGA_MISC_RAM_ENABLED vga_h_std \<noteq> 0
   \<and> VgaSeqRegisters mode13_example (VGA_SEQ_MEM_REG vga_h_std) AND VGA_SEQ_MEM_C4 vga_h_std \<noteq> 0
   \<and> VgaSeqRegisters mode13_example (VGA_SEQ_MASK_REG vga_h_std) AND 0x0F = 0x0F
   \<and> VgaGetVideoBaseAddress vga_h_std mode13_example \<le> 0xA0005
   \<and> 0xA0005 < VgaGetVideoBaseAddress vga_h_std mode13_example + 16
   \<and> (\<exists>s1. VgaWriteMemory vga_h_std mode13_example 0xA0005 [0x5A] 1 = Some s1
            \<and> VgaReadMemory vga_h_std s1 0xA0005 [0] 1 = Some [0x5A])"
proof -
  have ram: "VgaMiscRegister mode13_example AND VGA_MISC_RAM_ENABLED vga_h_std \<noteq> 0"
    by (simp add: mode13_example_regs vga_h_std_def)
  have c4: "VgaSeqRegisters mode13_example (VGA_SEQ_MEM_REG vga_h_std)
      AND VGA_SEQ_MEM_C4 vga_h_std \<noteq> 0"
    by (simp add: mode13_example_regs vga_h_std_def)
  have m: "VgaSeqRegisters mode13_example (VGA_SEQ_MASK_REG vga_h_std) AND 0x0F = 0x0F"
    by (simp add: mode13_example_regs vga_h_std_def)
  have b: "VgaGetVideoBaseAddress vga_h_std mode13_example = 0xA0000"
    by (simp add: VgaGetVideoBaseAddress_def MemoryBase_def mode13_example_regs)
  have lo: "VgaGetVideoBaseAddress vga_h_std mode13_example \<le> 0xA0005" by (simp add: b)
  have hi: "0xA0005 < VgaGetVideoBaseAddress vga_h_std mode13_example + 16" by (simp add: b)
  from chain4_round_trip [OF ram c4 m lo hi, of "0x5A" 0] ram c4 m lo hi
  show ?thesis by blast
qed

subsection \<open>The attribute controller's latch\<close>

lemma ac_latch_after:
  "VgaAcLatch (VgaWritePorts h s (map (Pair (VGA_AC_INDEX h)) ds))
     = (VgaAcLatch s \<noteq> odd (length ds))"
proof (induction ds arbitrary: s)
  case Nil
  show ?case by simp
next
  case (Cons d ds)
  have "VgaAcLatch (VgaWritePort h s (VGA_AC_INDEX h) d) = (\<not> VgaAcLatch s)"
    by (simp add: VgaWritePort_AC_INDEX VgaWriteAc_def)
  with Cons.IH [of "VgaWritePort h s (VGA_AC_INDEX h) d"] show ?case by auto
qed

text \<open>
  C5: from a state with the latch clear (the last latch reset), the writes to
  \<^verbatim>\<open>VGA_AC_INDEX\<close> alternate for every number of writes: before write number \<open>i\<close> (from 0)
  the latch is set exactly when \<open>i\<close> is odd; an even-numbered write sets the index (when
  the data is below \<^verbatim>\<open>VGA_AC_MAX_REG\<close>) and touches no register, an odd-numbered write
  stores the data in the register under the index and leaves the index. A read of
  \<^verbatim>\<open>VGA_STAT_MONO\<close> or \<^verbatim>\<open>VGA_STAT_COLOR\<close> clears the latch, whatever it was, so that the
  next write to \<^verbatim>\<open>VGA_AC_INDEX\<close> sets the index.
\<close>

theorem ac_latch_parity:
  assumes p: "ports_ok h"
    and st: "Port = VGA_STAT_MONO h \<or> Port = VGA_STAT_COLOR h"
    and l0: "\<not> VgaAcLatch s0"
    and i: "i < length ds"
  shows "(let si = VgaWritePorts h s0 (map (Pair (VGA_AC_INDEX h)) (take i ds)); d = ds ! i
          in VgaAcLatch si = odd i
             \<and> VgaWritePort h si (VGA_AC_INDEX h) d =
                 (if even i
                  then si\<lparr>VgaAcIndex := (if unat d < VGA_AC_MAX_REG h then d else VgaAcIndex si),
                          VgaAcLatch := True\<rparr>
                  else si\<lparr>VgaAcRegisters := (VgaAcRegisters si)(unat (VgaAcIndex si) := d),
                          VgaAcLatch := False\<rparr>))
    \<and> (let sr = snd (VgaReadPort h s Port)
        in \<not> VgaAcLatch sr
           \<and> VgaWritePort h sr (VGA_AC_INDEX h) d0 =
               sr\<lparr>VgaAcIndex := (if unat d0 < VGA_AC_MAX_REG h then d0 else VgaAcIndex sr),
                    VgaAcLatch := True\<rparr>)"
proof -
  let ?si = "VgaWritePorts h s0 (map (Pair (VGA_AC_INDEX h)) (take i ds))"
  have "length (take i ds) = i" using i by simp
  with l0 have li: "VgaAcLatch ?si = odd i"
    using ac_latch_after [of h s0 "take i ds"] by simp
  have a: "VgaWritePort h ?si (VGA_AC_INDEX h) (ds ! i) =
     (if even i
      then ?si\<lparr>VgaAcIndex := (if unat (ds ! i) < VGA_AC_MAX_REG h then ds ! i else VgaAcIndex ?si),
               VgaAcLatch := True\<rparr>
      else ?si\<lparr>VgaAcRegisters := (VgaAcRegisters ?si)(unat (VgaAcIndex ?si) := ds ! i),
               VgaAcLatch := False\<rparr>)"
    by (simp add: VgaWritePort_AC_INDEX VgaWriteAc_def li)
  have b: "\<not> VgaAcLatch (snd (VgaReadPort h s Port))"
    by (simp add: VgaReadPort_STAT [OF p st])
  have c: "VgaWritePort h (snd (VgaReadPort h s Port)) (VGA_AC_INDEX h) d0 =
     (snd (VgaReadPort h s Port))
       \<lparr>VgaAcIndex := (if unat d0 < VGA_AC_MAX_REG h then d0
                        else VgaAcIndex (snd (VgaReadPort h s Port))),
        VgaAcLatch := True\<rparr>"
    using b by (simp add: VgaWritePort_AC_INDEX)
  from li a b c show ?thesis by (simp only: Let_def) blast
qed

theorem ac_latch_parity_witness:
  "ports_ok vga_h_std
   \<and> ((0x3DA :: WORD) = VGA_STAT_MONO vga_h_std \<or> (0x3DA :: WORD) = VGA_STAT_COLOR vga_h_std)
   \<and> \<not> VgaAcLatch (vga_init vga_h_std)
   \<and> (1 :: nat) < length [0x10, 0x41, 0x11 :: BYTE]
   \<and> VgaAcLatch (VgaWritePorts vga_h_std (vga_init vga_h_std) [(0x3C0, 0x10)])
   \<and> VgaAcRegisters
        (VgaWritePort vga_h_std
           (VgaWritePorts vga_h_std (vga_init vga_h_std) [(0x3C0, 0x10)]) 0x3C0 0x41) 0x10 = 0x41
   \<and> \<not> VgaAcLatch (snd (VgaReadPort vga_h_std
           (VgaWritePorts vga_h_std (vga_init vga_h_std) [(0x3C0, 0x10)]) 0x3DA))"
proof -
  have a: "VGA_AC_INDEX vga_h_std = 0x3C0" by (simp add: vga_h_std_def)
  have st: "(0x3DA :: WORD) = VGA_STAT_MONO vga_h_std \<or> (0x3DA :: WORD) = VGA_STAT_COLOR vga_h_std"
    by (simp add: vga_h_std_def)
  have l0: "\<not> VgaAcLatch (vga_init vga_h_std)" by (simp add: vga_init_def)
  have i: "(1 :: nat) < length [0x10, 0x41, 0x11 :: BYTE]" by simp
  have x: "unat (VgaAcIndex (VgaWritePort vga_h_std (vga_init vga_h_std) 0x3C0 0x10)) = 0x10"
    by (simp add: VgaWritePort_def vga_h_std_def vga_init_def)
  from ac_latch_parity [OF ports_ok_std st l0 i,
      where s = "VgaWritePorts vga_h_std (vga_init vga_h_std) [(0x3C0, 0x10)]" and ?d0.0 = 0]
    ports_ok_std st l0 i
  show ?thesis by (simp add: a Let_def x)
qed

subsection \<open>The loops of the scan-out\<close>

declare VgaUpdateFramebuffer_planes8.simps [simp del]
declare VgaUpdateFramebuffer_planes4.simps [simp del]
declare VgaUpdateFramebuffer_pixels.simps [simp del]
declare VgaUpdateFramebuffer_lines.simps [simp del]
declare VgaUpdateFramebuffer_chars.simps [simp del]
declare VgaUpdateFramebuffer_rows.simps [simp del]

lemma pixels_step:
  "int j < sint (X Resolution) \<Longrightarrow>
   VgaUpdateFramebuffer_pixels h s Resolution AddressSize Address i j =
     (case VgaUpdateFramebuffer_pixel h s Resolution AddressSize Address i j of
        None \<Rightarrow> None
      | Some s1 \<Rightarrow> VgaUpdateFramebuffer_pixels h s1 Resolution AddressSize Address i (j + 1))"
  by (subst VgaUpdateFramebuffer_pixels.simps) simp

lemma pixels_stop:
  "\<not> int j < sint (X Resolution) \<Longrightarrow>
   VgaUpdateFramebuffer_pixels h s Resolution AddressSize Address i j = Some s"
  by (subst VgaUpdateFramebuffer_pixels.simps) simp

lemma lines_step:
  "int i < sint (Y Resolution) \<Longrightarrow>
   VgaUpdateFramebuffer_lines h s Resolution AddressSize ScanlineSize Address i =
     (case VgaUpdateFramebuffer_pixels h s Resolution AddressSize Address i 0 of
        None \<Rightarrow> None
      | Some s1 \<Rightarrow>
          VgaUpdateFramebuffer_lines h s1 Resolution AddressSize ScanlineSize
            (Address + ScanlineSize) (i + 1))"
  by (subst VgaUpdateFramebuffer_lines.simps) simp

lemma lines_stop:
  "\<not> int i < sint (Y Resolution) \<Longrightarrow>
   VgaUpdateFramebuffer_lines h s Resolution AddressSize ScanlineSize Address i = Some s"
  by (subst VgaUpdateFramebuffer_lines.simps) simp

lemma chars_step:
  "int j < sint (X Resolution) \<Longrightarrow>
   VgaUpdateFramebuffer_chars s Resolution AddressSize Address i j =
     (case VgaUpdateFramebuffer_char s Resolution AddressSize Address i j of
        None \<Rightarrow> None
      | Some s1 \<Rightarrow> VgaUpdateFramebuffer_chars s1 Resolution AddressSize Address i (j + 1))"
  by (subst VgaUpdateFramebuffer_chars.simps) simp

lemma chars_stop:
  "\<not> int j < sint (X Resolution) \<Longrightarrow>
   VgaUpdateFramebuffer_chars s Resolution AddressSize Address i j = Some s"
  by (subst VgaUpdateFramebuffer_chars.simps) simp

lemma rows_step:
  "int i < sint (Y Resolution) \<Longrightarrow>
   VgaUpdateFramebuffer_rows s Resolution AddressSize ScanlineSize Address i =
     (case VgaUpdateFramebuffer_chars s Resolution AddressSize Address i 0 of
        None \<Rightarrow> None
      | Some s1 \<Rightarrow>
          VgaUpdateFramebuffer_rows s1 Resolution AddressSize ScanlineSize
            (Address + ScanlineSize) (i + 1))"
  by (subst VgaUpdateFramebuffer_rows.simps) simp

lemma rows_stop:
  "\<not> int i < sint (Y Resolution) \<Longrightarrow>
   VgaUpdateFramebuffer_rows s Resolution AddressSize ScanlineSize Address i = Some s"
  by (subst VgaUpdateFramebuffer_rows.simps) simp

text \<open>The scan-out changes the framebuffer and the dirty rectangle, and nothing else.\<close>

lemma pixel_frame:
  "VgaUpdateFramebuffer_pixel h s Resolution AddressSize Address i j = Some s1
   \<Longrightarrow> s1 = s\<lparr>ConsoleFramebuffer := ConsoleFramebuffer s1, NeedsUpdate := NeedsUpdate s1,
              UpdateRectangle := UpdateRectangle s1\<rparr>"
  by (auto simp: VgaUpdateFramebuffer_pixel_def VgaMarkForUpdate_def Let_def
      split: option.splits framebuffer.splits if_splits)

lemma char_frame:
  "VgaUpdateFramebuffer_char s Resolution AddressSize Address i j = Some s1
   \<Longrightarrow> s1 = s\<lparr>ConsoleFramebuffer := ConsoleFramebuffer s1, NeedsUpdate := NeedsUpdate s1,
              UpdateRectangle := UpdateRectangle s1\<rparr>"
  by (auto simp: VgaUpdateFramebuffer_char_def VgaMarkForUpdate_def Let_def
      split: option.splits framebuffer.splits if_splits)

lemma frame_trans:
  assumes "s1 = s2\<lparr>ConsoleFramebuffer := ConsoleFramebuffer s1, NeedsUpdate := NeedsUpdate s1,
              UpdateRectangle := UpdateRectangle s1\<rparr>"
    and "s2 = s\<lparr>ConsoleFramebuffer := ConsoleFramebuffer s2, NeedsUpdate := NeedsUpdate s2,
              UpdateRectangle := UpdateRectangle s2\<rparr>"
  shows "s1 = s\<lparr>ConsoleFramebuffer := ConsoleFramebuffer s1, NeedsUpdate := NeedsUpdate s1,
              UpdateRectangle := UpdateRectangle s1\<rparr>"
proof -
  from assms have "s1 = s\<lparr>ConsoleFramebuffer := ConsoleFramebuffer s2, NeedsUpdate := NeedsUpdate s2,
              UpdateRectangle := UpdateRectangle s2\<rparr>\<lparr>ConsoleFramebuffer := ConsoleFramebuffer s1, NeedsUpdate := NeedsUpdate s1,
              UpdateRectangle := UpdateRectangle s1\<rparr>" by simp
  then show ?thesis by simp
qed

lemma pixels_frame:
  "VgaUpdateFramebuffer_pixels h s Resolution AddressSize Address i j = Some s1
   \<Longrightarrow> s1 = s\<lparr>ConsoleFramebuffer := ConsoleFramebuffer s1, NeedsUpdate := NeedsUpdate s1,
              UpdateRectangle := UpdateRectangle s1\<rparr>"
proof (induction h s Resolution AddressSize Address i j rule: VgaUpdateFramebuffer_pixels.induct)
  case (1 h s Resolution AddressSize Address i j)
  show ?case
  proof (cases "int j < sint (X Resolution)")
    case True
    with "1.prems" obtain s2
      where a: "VgaUpdateFramebuffer_pixel h s Resolution AddressSize Address i j = Some s2"
        and b: "VgaUpdateFramebuffer_pixels h s2 Resolution AddressSize Address i (j + 1) = Some s1"
      by (simp add: pixels_step split: option.splits)
    from frame_trans [OF "1.IH" [OF True a b] pixel_frame [OF a]] show ?thesis .
  next
    case False
    with "1.prems" show ?thesis by (simp add: pixels_stop)
  qed
qed

lemma lines_frame:
  "VgaUpdateFramebuffer_lines h s Resolution AddressSize ScanlineSize Address i = Some s1
   \<Longrightarrow> s1 = s\<lparr>ConsoleFramebuffer := ConsoleFramebuffer s1, NeedsUpdate := NeedsUpdate s1,
              UpdateRectangle := UpdateRectangle s1\<rparr>"
proof (induction h s Resolution AddressSize ScanlineSize Address i
    rule: VgaUpdateFramebuffer_lines.induct)
  case (1 h s Resolution AddressSize ScanlineSize Address i)
  show ?case
  proof (cases "int i < sint (Y Resolution)")
    case True
    with "1.prems" obtain s2
      where a: "VgaUpdateFramebuffer_pixels h s Resolution AddressSize Address i 0 = Some s2"
        and b: "VgaUpdateFramebuffer_lines h s2 Resolution AddressSize ScanlineSize
                  (Address + ScanlineSize) (i + 1) = Some s1"
      by (simp add: lines_step split: option.splits)
    from frame_trans [OF "1.IH" [OF True a b] pixels_frame [OF a]] show ?thesis .
  next
    case False
    with "1.prems" show ?thesis by (simp add: lines_stop)
  qed
qed

lemma chars_frame:
  "VgaUpdateFramebuffer_chars s Resolution AddressSize Address i j = Some s1
   \<Longrightarrow> s1 = s\<lparr>ConsoleFramebuffer := ConsoleFramebuffer s1, NeedsUpdate := NeedsUpdate s1,
              UpdateRectangle := UpdateRectangle s1\<rparr>"
proof (induction s Resolution AddressSize Address i j rule: VgaUpdateFramebuffer_chars.induct)
  case (1 s Resolution AddressSize Address i j)
  show ?case
  proof (cases "int j < sint (X Resolution)")
    case True
    with "1.prems" obtain s2
      where a: "VgaUpdateFramebuffer_char s Resolution AddressSize Address i j = Some s2"
        and b: "VgaUpdateFramebuffer_chars s2 Resolution AddressSize Address i (j + 1) = Some s1"
      by (simp add: chars_step split: option.splits)
    from frame_trans [OF "1.IH" [OF True a b] char_frame [OF a]] show ?thesis .
  next
    case False
    with "1.prems" show ?thesis by (simp add: chars_stop)
  qed
qed

lemma rows_frame:
  "VgaUpdateFramebuffer_rows s Resolution AddressSize ScanlineSize Address i = Some s1
   \<Longrightarrow> s1 = s\<lparr>ConsoleFramebuffer := ConsoleFramebuffer s1, NeedsUpdate := NeedsUpdate s1,
              UpdateRectangle := UpdateRectangle s1\<rparr>"
proof (induction s Resolution AddressSize ScanlineSize Address i
    rule: VgaUpdateFramebuffer_rows.induct)
  case (1 s Resolution AddressSize ScanlineSize Address i)
  show ?case
  proof (cases "int i < sint (Y Resolution)")
    case True
    with "1.prems" obtain s2
      where a: "VgaUpdateFramebuffer_chars s Resolution AddressSize Address i 0 = Some s2"
        and b: "VgaUpdateFramebuffer_rows s2 Resolution AddressSize ScanlineSize
                  (Address + ScanlineSize) (i + 1) = Some s1"
      by (simp add: rows_step split: option.splits)
    from frame_trans [OF "1.IH" [OF True a b] chars_frame [OF a]] show ?thesis .
  next
    case False
    with "1.prems" show ?thesis by (simp add: rows_stop)
  qed
qed

lemma VgaUpdateFramebuffer_frame:
  "VgaUpdateFramebuffer h s = Some s1
   \<Longrightarrow> s1 = s\<lparr>ConsoleFramebuffer := ConsoleFramebuffer s1, NeedsUpdate := NeedsUpdate s1,
              UpdateRectangle := UpdateRectangle s1\<rparr>"
  by (auto simp: VgaUpdateFramebuffer_def Let_def dest: lines_frame rows_frame split: if_splits)

lemma VgaUpdateMode_frame:
  "VgaUpdateMode h ho s =
     s\<lparr>TextMode := TextMode (VgaUpdateMode h ho s),
       VdmRunning := VdmRunning (VgaUpdateMode h ho s),
       ConsoleFramebuffer := ConsoleFramebuffer (VgaUpdateMode h ho s),
       NeedsUpdate := NeedsUpdate (VgaUpdateMode h ho s),
       UpdateRectangle := UpdateRectangle (VgaUpdateMode h ho s)\<rparr>"
  by (simp add: VgaUpdateMode_def VgaEnterTextMode_def VgaEnterGraphicsMode_def
      VgaLeaveTextMode_def VgaLeaveGraphicsMode_def Let_def)


lemma scanout_fields:
  assumes "s1 = s\<lparr>ConsoleFramebuffer := a, NeedsUpdate := b, UpdateRectangle := c\<rparr>"
  shows "VgaSeqIndex s1 = VgaSeqIndex s" "VgaGcIndex s1 = VgaGcIndex s"
    "VgaCrtcIndex s1 = VgaCrtcIndex s" "VgaAcIndex s1 = VgaAcIndex s"
    "VgaSeqRegisters s1 = VgaSeqRegisters s" "VgaGcRegisters s1 = VgaGcRegisters s"
    "VgaCrtcRegisters s1 = VgaCrtcRegisters s" "VgaAcRegisters s1 = VgaAcRegisters s"
    "TextMode s1 = TextMode s"
  using assms by simp_all

lemma VgaUpdateMode_fields:
  shows "VgaSeqIndex (VgaUpdateMode h ho s) = VgaSeqIndex s"
    "VgaGcIndex (VgaUpdateMode h ho s) = VgaGcIndex s"
    "VgaCrtcIndex (VgaUpdateMode h ho s) = VgaCrtcIndex s"
    "VgaAcIndex (VgaUpdateMode h ho s) = VgaAcIndex s"
    "VgaSeqRegisters (VgaUpdateMode h ho s) = VgaSeqRegisters s"
    "VgaGcRegisters (VgaUpdateMode h ho s) = VgaGcRegisters s"
    "VgaCrtcRegisters (VgaUpdateMode h ho s) = VgaCrtcRegisters s"
    "VgaAcRegisters (VgaUpdateMode h ho s) = VgaAcRegisters s"
    "CursorMoved (VgaUpdateMode h ho s) = CursorMoved s"
  by (simp_all add: VgaUpdateMode_def VgaEnterTextMode_def VgaEnterGraphicsMode_def
      VgaLeaveTextMode_def VgaLeaveGraphicsMode_def Let_def)

lemma VgaRefreshDisplay_steps:
  assumes "VgaRefreshDisplay h ho s = Some s1"
  obtains s2 s3 nu ur where
    "s2 = (if ModeChanged s then (VgaUpdateMode h ho s)\<lparr>ModeChanged := False\<rparr> else s)
          \<lparr>CursorMoved := False\<rparr>"
    and "CursorMoved s \<longrightarrow>
           VgaUpdateTextCursor h
             (if ModeChanged s then (VgaUpdateMode h ho s)\<lparr>ModeChanged := False\<rparr> else s) \<noteq> None"
    and "VgaUpdateFramebuffer h s2 = Some s3"
    and "s1 = s3\<lparr>InVerticalRetrace := True, NeedsUpdate := nu, UpdateRectangle := ur\<rparr>"
proof -
  let ?s0 = "if ModeChanged s then (VgaUpdateMode h ho s)\<lparr>ModeChanged := False\<rparr> else s"
  have cm: "CursorMoved ?s0 = CursorMoved s" by (simp add: VgaUpdateMode_fields)
  show ?thesis
  proof (cases "CursorMoved s")
    case True
    with assms cm obtain s3 where c: "VgaUpdateTextCursor h ?s0 \<noteq> None"
      and f: "VgaUpdateFramebuffer h (?s0\<lparr>CursorMoved := False\<rparr>) = Some s3"
      and e: "(let s4 = s3\<lparr>InVerticalRetrace := True\<rparr>
                   in if \<not> NeedsUpdate s4 then Some s4
                      else if VgaGcRegisters s4 (VGA_GC_MISC_REG h) AND VGA_GC_MISC_NOALPHA h \<noteq> 0
                      then Some (s4\<lparr>NeedsUpdate := False\<rparr>)
                      else (case ConsoleFramebuffer s4 of
                              CharBuffer b \<Rightarrow>
                                Some (s4\<lparr>UpdateRectangle := WriteConsoleOutputA_region ho,
                                         NeedsUpdate := False\<rparr>)
                            | _ \<Rightarrow> None)) = Some s1"
      unfolding VgaRefreshDisplay_def Let_def VgaUpdateTextCursor_def
      by (simp split: option.splits if_splits)
    from e have "s1 = s3\<lparr>InVerticalRetrace := True, NeedsUpdate := NeedsUpdate s1, UpdateRectangle := UpdateRectangle s1\<rparr>"
      by (auto simp: Let_def split: if_splits framebuffer.splits)
    with that [OF refl _ f] c True show ?thesis by blast
  next
    case False
    have z: "?s0\<lparr>CursorMoved := False\<rparr> = ?s0" using False cm by simp
    from assms cm False obtain s3 where 
       f: "VgaUpdateFramebuffer h ?s0 = Some s3"
      and e: "(let s4 = s3\<lparr>InVerticalRetrace := True\<rparr>
                   in if \<not> NeedsUpdate s4 then Some s4
                      else if VgaGcRegisters s4 (VGA_GC_MISC_REG h) AND VGA_GC_MISC_NOALPHA h \<noteq> 0
                      then Some (s4\<lparr>NeedsUpdate := False\<rparr>)
                      else (case ConsoleFramebuffer s4 of
                              CharBuffer b \<Rightarrow>
                                Some (s4\<lparr>UpdateRectangle := WriteConsoleOutputA_region ho,
                                         NeedsUpdate := False\<rparr>)
                            | _ \<Rightarrow> None)) = Some s1"
      unfolding VgaRefreshDisplay_def Let_def
      by (simp split: option.splits)
    from e have "s1 = s3\<lparr>InVerticalRetrace := True, NeedsUpdate := NeedsUpdate s1, UpdateRectangle := UpdateRectangle s1\<rparr>"
      by (auto simp: Let_def split: if_splits framebuffer.splits)
    with that [OF refl _ ] f z False show ?thesis by simp
  qed
qed

lemma VgaRefreshDisplay_fields:
  assumes "VgaRefreshDisplay h ho s = Some s1"
  shows "VgaSeqIndex s1 = VgaSeqIndex s" "VgaGcIndex s1 = VgaGcIndex s"
    "VgaCrtcIndex s1 = VgaCrtcIndex s" "VgaAcIndex s1 = VgaAcIndex s"
    "VgaSeqRegisters s1 = VgaSeqRegisters s" "VgaGcRegisters s1 = VgaGcRegisters s"
    "VgaCrtcRegisters s1 = VgaCrtcRegisters s" "VgaAcRegisters s1 = VgaAcRegisters s"
proof -
  from assms obtain s2 s3 nu ur where
    a: "s2 = (if ModeChanged s then (VgaUpdateMode h ho s)\<lparr>ModeChanged := False\<rparr> else s)
          \<lparr>CursorMoved := False\<rparr>"
    and f: "VgaUpdateFramebuffer h s2 = Some s3"
    and e: "s1 = s3\<lparr>InVerticalRetrace := True, NeedsUpdate := nu, UpdateRectangle := ur\<rparr>"
    by (rule VgaRefreshDisplay_steps)
  note g = scanout_fields [OF VgaUpdateFramebuffer_frame [OF f]]
  from a have b: "VgaSeqIndex s2 = VgaSeqIndex s" "VgaGcIndex s2 = VgaGcIndex s"
    "VgaCrtcIndex s2 = VgaCrtcIndex s" "VgaAcIndex s2 = VgaAcIndex s"
    "VgaSeqRegisters s2 = VgaSeqRegisters s" "VgaGcRegisters s2 = VgaGcRegisters s"
    "VgaCrtcRegisters s2 = VgaCrtcRegisters s" "VgaAcRegisters s2 = VgaAcRegisters s"
    by (simp_all add: VgaUpdateMode_fields)
  from e g b show "VgaSeqIndex s1 = VgaSeqIndex s" "VgaGcIndex s1 = VgaGcIndex s"
    "VgaCrtcIndex s1 = VgaCrtcIndex s" "VgaAcIndex s1 = VgaAcIndex s"
    "VgaSeqRegisters s1 = VgaSeqRegisters s" "VgaGcRegisters s1 = VgaGcRegisters s"
    "VgaCrtcRegisters s1 = VgaCrtcRegisters s" "VgaAcRegisters s1 = VgaAcRegisters s"
    by simp_all
qed


subsection \<open>The index registers\<close>

lemma indices_init: "regs_ok h \<Longrightarrow> indices_ok h (vga_init h)"
  by (simp add: regs_ok_def seq_regs_def gc_regs_def crtc_regs_def ac_regs_def indices_ok_def
      vga_init_def unat_of_nat)

lemma VgaWritePort_MISC_WRITE:
  assumes "ports_ok h"
  shows "VgaWritePort h s (VGA_MISC_WRITE h) Data = s\<lparr>VgaMiscRegister := Data\<rparr>"
  using write_ports_rev [OF assms]
  by (simp add: VgaWritePort_def write_ports_def del: distinct_rev)

lemma VgaWritePort_other:
  "Port \<notin> set (write_ports h) \<Longrightarrow> VgaWritePort h s Port Data = s"
  by (simp add: VgaWritePort_def write_ports_def)

lemma indices_write_port:
  assumes p: "ports_ok h" and i: "indices_ok h s"
  shows "indices_ok h (VgaWritePort h s Port Data)"
proof (cases "Port \<in> set (write_ports h)")
  case False
  with i show ?thesis by (simp add: VgaWritePort_other)
next
  case True
  then consider "Port = VGA_AC_INDEX h" | "Port = VGA_SEQ_INDEX h" | "Port = VGA_SEQ_DATA h"
    | "Port = VGA_DAC_READ_INDEX h" | "Port = VGA_DAC_WRITE_INDEX h" | "Port = VGA_DAC_DATA h"
    | "Port = VGA_MISC_WRITE h" | "Port = VGA_CRTC_INDEX h" | "Port = VGA_CRTC_DATA h"
    | "Port = VGA_GC_INDEX h" | "Port = VGA_GC_DATA h"
    by (auto simp: write_ports_def)
  then show ?thesis
  proof cases
    case 1 with i show ?thesis by (simp add: VgaWritePort_AC_INDEX VgaWriteAc_def indices_ok_def)
  next
    case 2 with i show ?thesis by (simp add: VgaWritePort_SEQ_INDEX [OF p] indices_ok_def)
  next
    case 3 with i show ?thesis
      by (simp add: VgaWritePort_SEQ_DATA [OF p] VgaWriteSequencer_def indices_ok_def)
  next
    case 4 with i show ?thesis by (simp add: VgaWritePort_DAC_READ_INDEX [OF p] indices_ok_def)
  next
    case 5 with i show ?thesis by (simp add: VgaWritePort_DAC_WRITE_INDEX [OF p] indices_ok_def)
  next
    case 6 with i show ?thesis
      by (simp add: VgaWritePort_DAC_DATA [OF p] VgaWriteDac_def indices_ok_def)
  next
    case 7 with i show ?thesis by (simp add: VgaWritePort_MISC_WRITE [OF p] indices_ok_def)
  next
    case 8 with i show ?thesis by (simp add: VgaWritePort_CRTC_INDEX [OF p] indices_ok_def)
  next
    case 9 with i show ?thesis
      by (simp add: VgaWritePort_CRTC_DATA [OF p] VgaWriteCrtc_def indices_ok_def Let_def)
  next
    case 10 with i show ?thesis by (simp add: VgaWritePort_GC_INDEX [OF p] indices_ok_def)
  next
    case 11 with i show ?thesis
      by (simp add: VgaWritePort_GC_DATA [OF p] VgaWriteGc_def indices_ok_def Let_def)
  qed
qed

lemma indices_read_port: "indices_ok h s \<Longrightarrow> indices_ok h (snd (VgaReadPort h s Port))"
  by (simp add: indices_ok_def VgaReadPort_def Let_def)

lemma indices_refresh:
  assumes "indices_ok h s" and "VgaRefreshDisplay h ho s = Some s1"
  shows "indices_ok h s1"
  using assms(1) VgaRefreshDisplay_fields(1-4) [OF assms(2)] by (simp add: indices_ok_def)

lemma indices_write_memory:
  assumes "indices_ok h s" and "VgaWriteMemory h s Address Buffer Size = Some s1"
  shows "indices_ok h s1"
proof -
  have "indices_ok h (s\<lparr>VgaMemory := VgaMemory s1\<rparr>)"
    using assms(1) by (simp add: indices_ok_def)
  with VgaWriteMemory_frame [OF assms(2)] show ?thesis by simp
qed

lemma reachable_indices:
  assumes "ports_ok h" and "regs_ok h" and "reachable h s"
  shows "indices_ok h s"
  using assms(3)
proof induction
  case reach_init
  show ?case by (rule indices_init [OF assms(2)])
next
  case (reach_write_port s Port Data)
  then show ?case by (simp add: indices_write_port [OF assms(1)])
next
  case (reach_read_port s Port)
  then show ?case by (simp add: indices_read_port)
next
  case (reach_write_memory s Address Buffer Size s1)
  then show ?case by (blast intro: indices_write_memory)
next
  case (reach_refresh s ho s1)
  then show ?case by (blast intro: indices_refresh)
next
  case (reach_retrace s)
  then show ?case by (simp add: indices_ok_def VgaHorizontalRetrace_def)
qed

text \<open>
  C9, as the claim states it: a write to an index port with data at or beyond the bank's
  register count changes nothing. It fails for \<^verbatim>\<open>VGA_AC_INDEX\<close>: the index is kept, but the
  latch is toggled whatever the data.
\<close>

theorem index_out_of_range_counterexample:
  "VGA_AC_MAX_REG vga_h_std \<le> unat (0xFF :: BYTE)
   \<and> \<not> VgaAcLatch (vga_init vga_h_std)
   \<and> VgaWritePort vga_h_std (vga_init vga_h_std) (VGA_AC_INDEX vga_h_std) 0xFF
        \<noteq> vga_init vga_h_std"
proof -
  have "VgaAcLatch (VgaWritePort vga_h_std (vga_init vga_h_std) (VGA_AC_INDEX vga_h_std) 0xFF)"
    by (simp add: VgaWritePort_def vga_h_std_def vga_init_def)
  moreover have l: "\<not> VgaAcLatch (vga_init vga_h_std)" by (simp add: vga_init_def)
  ultimately have "VgaWritePort vga_h_std (vga_init vga_h_std) (VGA_AC_INDEX vga_h_std) 0xFF
        \<noteq> vga_init vga_h_std" by auto
  moreover have "VGA_AC_MAX_REG vga_h_std \<le> unat (0xFF :: BYTE)" by (simp add: vga_h_std_def)
  ultimately show ?thesis using l by simp
qed

text \<open>
  C9, amended: a write to \<^verbatim>\<open>VGA_SEQ_INDEX\<close>, \<^verbatim>\<open>VGA_GC_INDEX\<close> or \<^verbatim>\<open>VGA_CRTC_INDEX\<close> with data
  at or beyond the bank's register count changes nothing; such a write to \<^verbatim>\<open>VGA_AC_INDEX\<close>
  in the index phase keeps the index and every register and only sets the latch; and in
  every state reached from the initial one by the public functions each bank's index is
  below the bank's register count.
\<close>

theorem index_bounds:
  assumes p: "ports_ok h" and r: "regs_ok h"
  shows "(VGA_SEQ_MAX_REG h \<le> unat Data \<longrightarrow> VgaWritePort h s (VGA_SEQ_INDEX h) Data = s)
    \<and> (VGA_GC_MAX_REG h \<le> unat Data \<longrightarrow> VgaWritePort h s (VGA_GC_INDEX h) Data = s)
    \<and> (VGA_CRTC_MAX_REG h \<le> unat Data \<longrightarrow> VgaWritePort h s (VGA_CRTC_INDEX h) Data = s)
    \<and> (VGA_AC_MAX_REG h \<le> unat Data \<and> \<not> VgaAcLatch s \<longrightarrow>
          VgaWritePort h s (VGA_AC_INDEX h) Data = s\<lparr>VgaAcLatch := True\<rparr>)
    \<and> (reachable h s \<longrightarrow> indices_ok h s)"
  using reachable_indices [OF p r]
  by (simp add: VgaWritePort_SEQ_INDEX [OF p] VgaWritePort_GC_INDEX [OF p]
      VgaWritePort_CRTC_INDEX [OF p] VgaWritePort_AC_INDEX)

theorem index_bounds_witness:
  "ports_ok vga_h_std \<and> regs_ok vga_h_std
   \<and> VGA_SEQ_MAX_REG vga_h_std \<le> unat (0xFF :: BYTE)
   \<and> VGA_GC_MAX_REG vga_h_std \<le> unat (0xFF :: BYTE)
   \<and> VGA_CRTC_MAX_REG vga_h_std \<le> unat (0xFF :: BYTE)
   \<and> VGA_AC_MAX_REG vga_h_std \<le> unat (0xFF :: BYTE)
   \<and> \<not> VgaAcLatch (vga_init vga_h_std)
   \<and> reachable vga_h_std (vga_init vga_h_std)
   \<and> VgaWritePort vga_h_std (vga_init vga_h_std) (VGA_SEQ_INDEX vga_h_std) 0xFF
        = vga_init vga_h_std
   \<and> VgaWritePort vga_h_std (vga_init vga_h_std) (VGA_GC_INDEX vga_h_std) 0xFF
        = vga_init vga_h_std
   \<and> VgaWritePort vga_h_std (vga_init vga_h_std) (VGA_CRTC_INDEX vga_h_std) 0xFF
        = vga_init vga_h_std
   \<and> VgaWritePort vga_h_std (vga_init vga_h_std) (VGA_AC_INDEX vga_h_std) 0xFF
        = (vga_init vga_h_std)\<lparr>VgaAcLatch := True\<rparr>
   \<and> indices_ok vga_h_std (vga_init vga_h_std)"
proof -
  have m: "VGA_SEQ_MAX_REG vga_h_std \<le> unat (0xFF :: BYTE)"
    "VGA_GC_MAX_REG vga_h_std \<le> unat (0xFF :: BYTE)"
    "VGA_CRTC_MAX_REG vga_h_std \<le> unat (0xFF :: BYTE)"
    "VGA_AC_MAX_REG vga_h_std \<le> unat (0xFF :: BYTE)"
    by (simp_all add: vga_h_std_def)
  have l: "\<not> VgaAcLatch (vga_init vga_h_std)" by (simp add: vga_init_def)
  note re = reach_init [of vga_h_std]
  from index_bounds [OF ports_ok_std regs_ok_std, where Data = "0xFF" and s = "vga_init vga_h_std"]
    m l re ports_ok_std regs_ok_std
  show ?thesis by simp
qed

subsection \<open>The display resolution of scenario S2\<close>

lemma unat_reg: "r < m \<Longrightarrow> m \<le> 256 \<Longrightarrow> unat (of_nat r :: BYTE) = r"
  by (simp add: unat_of_nat)

lemma regs_ok_bounds:
  assumes "regs_ok h"
  shows "VGA_SEQ_MAX_REG h \<le> 256" "VGA_GC_MAX_REG h \<le> 256"
    "VGA_CRTC_MAX_REG h \<le> 256" "VGA_AC_MAX_REG h \<le> 256"
    "VGA_GC_MISC_REG h < VGA_GC_MAX_REG h" "VGA_SEQ_CLOCK_REG h < VGA_SEQ_MAX_REG h"
    "VGA_AC_CONTROL_REG h < VGA_AC_MAX_REG h"
    "VGA_CRTC_END_HORZ_DISP_REG h < VGA_CRTC_MAX_REG h"
    "VGA_CRTC_VERT_DISP_END_REG h < VGA_CRTC_MAX_REG h"
    "VGA_CRTC_MAX_SCAN_LINE_REG h < VGA_CRTC_MAX_REG h"
    "VGA_CRTC_OVERFLOW_REG h < VGA_CRTC_MAX_REG h"
  using assms
  by (simp_all add: regs_ok_def seq_regs_def gc_regs_def crtc_regs_def ac_regs_def)

lemma crtc_regs_distinct:
  assumes "regs_ok h"
  shows "distinct (crtc_regs h)" "distinct (rev (crtc_regs h))"
  using assms by (simp_all add: regs_ok_def)

lemma S2_state:
  assumes p: "ports_ok h" and r: "regs_ok h" and l: "\<not> VgaAcLatch s"
  shows "VgaWritePorts h s (S2_sequence h gc_misc seq_clock ac_control) =
    s\<lparr>VgaGcIndex := of_nat (VGA_GC_MISC_REG h),
      VgaGcRegisters := (VgaGcRegisters s)(VGA_GC_MISC_REG h := gc_misc),
      VgaSeqIndex := of_nat (VGA_SEQ_CLOCK_REG h),
      VgaSeqRegisters := (VgaSeqRegisters s)(VGA_SEQ_CLOCK_REG h := seq_clock),
      VgaAcIndex := of_nat (VGA_AC_CONTROL_REG h),
      VgaAcRegisters := (VgaAcRegisters s)(VGA_AC_CONTROL_REG h := ac_control),
      VgaCrtcIndex := of_nat (VGA_CRTC_OVERFLOW_REG h),
      VgaCrtcRegisters := (VgaCrtcRegisters s)
        (VGA_CRTC_END_HORZ_DISP_REG h := 39, VGA_CRTC_VERT_DISP_END_REG h := 199,
         VGA_CRTC_MAX_SCAN_LINE_REG h := 1, VGA_CRTC_OVERFLOW_REG h := 0),
      ModeChanged := True\<rparr>"
proof -
  note b = regs_ok_bounds [OF r]
  note u = unat_reg [OF b(5) b(2)] unat_reg [OF b(6) b(1)] unat_reg [OF b(7) b(4)]
    unat_reg [OF b(8) b(3)] unat_reg [OF b(9) b(3)] unat_reg [OF b(10) b(3)]
    unat_reg [OF b(11) b(3)]
  from crtc_regs_distinct [OF r] l b show ?thesis
    by (simp add: S2_sequence_def VgaWritePort_GC_INDEX [OF p] VgaWritePort_GC_DATA [OF p]
        VgaWritePort_SEQ_INDEX [OF p] VgaWritePort_SEQ_DATA [OF p]
        VgaWritePort_CRTC_INDEX [OF p] VgaWritePort_CRTC_DATA [OF p] VgaWritePort_AC_INDEX
        VgaWriteGc_def VgaWriteSequencer_def VgaWriteAc_def VgaWriteCrtc_def Let_def u
        crtc_regs_def del: distinct_rev)
qed

text \<open>
  The graphics scan-out with 8BIT set reads, for pixel \<open>j\<close> of a scanline, the byte at
  \<^verbatim>\<open>(Address + j / 4) * AddressSize\<close> of one plane or of all four. It returns when these
  bytes lie inside the plane and the framebuffer holds the bitmap of the resolution.
\<close>

lemma planes8_step:
  "k < VGA_NUM_BANKS \<Longrightarrow>
   VgaMemory_at s (of_nat k * of_nat VGA_BANK_SIZE + (Address + of_nat (j div 4)) * AddressSize)
     = Some PlaneData \<Longrightarrow>
   \<exists>p. VgaUpdateFramebuffer_planes8 s AddressSize Address j k PixelData =
     VgaUpdateFramebuffer_planes8 s AddressSize Address j (k + 1) p"
  by (subst VgaUpdateFramebuffer_planes8.simps) (auto simp: Let_def)

lemma planes8_stop:
  "\<not> k < VGA_NUM_BANKS \<Longrightarrow>
   VgaUpdateFramebuffer_planes8 s AddressSize Address j k PixelData = Some PixelData"
  by (subst VgaUpdateFramebuffer_planes8.simps) simp

lemma bank_offset:
  fixes VA :: DWORD
  assumes "unat VA < VGA_BANK_SIZE" and "k < VGA_NUM_BANKS"
  shows "unat (of_nat k * of_nat VGA_BANK_SIZE + VA) < VGA_NUM_BANKS * VGA_BANK_SIZE"
proof -
  from assms(2) have "k = 0 \<or> k = 1 \<or> k = 2 \<or> k = 3" by (simp add: VGA_NUM_BANKS_def) arith
  then show ?thesis using assms(1)
    by (elim disjE) (simp_all add: unat_word_ariths VGA_BANK_SIZE_def VGA_NUM_BANKS_def)
qed

lemma VgaMemory_at_bank:
  assumes "unat VA < VGA_BANK_SIZE" and "k < VGA_NUM_BANKS"
  shows "\<exists>b. VgaMemory_at s (of_nat k * of_nat VGA_BANK_SIZE + VA) = Some b"
  using bank_offset [OF assms] by (simp add: VgaMemory_at_def)

lemma planes8_some:
  assumes v: "unat ((Address + of_nat (j div 4)) * AddressSize) < VGA_BANK_SIZE"
  shows "\<exists>p. VgaUpdateFramebuffer_planes8 s AddressSize Address j k PixelData = Some p"
proof (induction "VGA_NUM_BANKS - k" arbitrary: k PixelData)
  case 0
  then show ?case by (simp add: planes8_stop)
next
  case (Suc n)
  then have k: "k < VGA_NUM_BANKS" and n: "n = VGA_NUM_BANKS - (k + 1)" by simp_all
  from VgaMemory_at_bank [OF v k] obtain b where
    "VgaMemory_at s (of_nat k * of_nat VGA_BANK_SIZE + (Address + of_nat (j div 4)) * AddressSize)
       = Some b" ..
  from planes8_step [OF k this] obtain p where
    "VgaUpdateFramebuffer_planes8 s AddressSize Address j k PixelData =
     VgaUpdateFramebuffer_planes8 s AddressSize Address j (k + 1) p" ..
  with Suc.hyps(1) [OF n] show ?case by simp
qed

lemma data_some:
  assumes b8: "VgaAcRegisters s (VGA_AC_CONTROL_REG h) AND VGA_AC_CONTROL_8BIT h \<noteq> 0"
    and v: "unat ((Address + of_nat (j div 4)) * AddressSize) < VGA_BANK_SIZE"
  shows "\<exists>p. VgaUpdateFramebuffer_data h s AddressSize Address j = Some p"
proof -
  have "j mod VGA_NUM_BANKS < VGA_NUM_BANKS" by (simp add: VGA_NUM_BANKS_def)
  from VgaMemory_at_bank [OF v this] have
    "\<exists>b. VgaMemory_at s (of_nat (j mod VGA_NUM_BANKS) * of_nat VGA_BANK_SIZE
            + (Address + of_nat (j div VGA_NUM_BANKS)) * AddressSize) = Some b"
    by (simp add: VGA_NUM_BANKS_def)
  with b8 planes8_some [OF v] show ?thesis
    by (simp add: VgaUpdateFramebuffer_data_def)
qed

lemma pixel_index: "0 \<le> x \<Longrightarrow> nat (int i * x + int j) = i * nat x + j"
  by (simp add: nat_add_distrib nat_mult_distrib)

lemma pixel_some:
  assumes b8: "VgaAcRegisters s (VGA_AC_CONTROL_REG h) AND VGA_AC_CONTROL_8BIT h \<noteq> 0"
    and v: "unat ((Address + of_nat (j div 4)) * AddressSize) < VGA_BANK_SIZE"
    and c: "ConsoleFramebuffer s = GraphicsBuffer b"
    and n: "nat (int i * sint (X Resolution) + int j) < length b"
  shows "\<exists>s1 b1. VgaUpdateFramebuffer_pixel h s Resolution AddressSize Address i j = Some s1
           \<and> ConsoleFramebuffer s1 = GraphicsBuffer b1 \<and> length b1 = length b"
proof -
  from data_some [OF b8 v] obtain p where
    "VgaUpdateFramebuffer_data h s AddressSize Address j = Some p" ..
  with c n show ?thesis
    by (simp add: VgaUpdateFramebuffer_pixel_def VgaMarkForUpdate_def Let_def)
qed

lemma pixels_some:
  assumes x: "0 \<le> sint (X Resolution)"
    and l: "i * nat (sint (X Resolution)) + nat (sint (X Resolution)) \<le> n"
    and v: "\<And>j. int j < sint (X Resolution) \<Longrightarrow>
              unat ((Address + of_nat (j div 4)) * AddressSize) < VGA_BANK_SIZE"
  shows "VgaAcRegisters s (VGA_AC_CONTROL_REG h) AND VGA_AC_CONTROL_8BIT h \<noteq> 0 \<Longrightarrow>
         ConsoleFramebuffer s = GraphicsBuffer b \<Longrightarrow> length b = n \<Longrightarrow>
         \<exists>s1 b1. VgaUpdateFramebuffer_pixels h s Resolution AddressSize Address i j = Some s1
           \<and> ConsoleFramebuffer s1 = GraphicsBuffer b1 \<and> length b1 = n"
proof (induction "nat (sint (X Resolution)) - j" arbitrary: j s b)
  case 0
  then have "\<not> int j < sint (X Resolution)" by simp
  with 0 show ?case by (simp add: pixels_stop)
next
  case (Suc m)
  then have j: "int j < sint (X Resolution)"
    and m: "m = nat (sint (X Resolution)) - (j + 1)" by simp_all
  from j l Suc.prems(3) have "nat (int i * sint (X Resolution) + int j) < length b"
    by (simp add: pixel_index [OF x])
  from pixel_some [OF Suc.prems(1) v [OF j] Suc.prems(2) this] obtain s2 b2 where
    a: "VgaUpdateFramebuffer_pixel h s Resolution AddressSize Address i j = Some s2"
    and b: "ConsoleFramebuffer s2 = GraphicsBuffer b2" and c: "length b2 = n"
    using Suc.prems(3) by auto
  from scanout_fields(8) [OF pixel_frame [OF a]] Suc.prems(1)
  have "VgaAcRegisters s2 (VGA_AC_CONTROL_REG h) AND VGA_AC_CONTROL_8BIT h \<noteq> 0" by simp
  from Suc.hyps(1) [OF m this b c] a j show ?case by (simp add: pixels_step)
qed

lemma lines_some:
  assumes x: "0 \<le> sint (X Resolution)"
    and l: "nat (sint (X Resolution)) * nat (sint (Y Resolution)) \<le> n"
  shows "VgaAcRegisters s (VGA_AC_CONTROL_REG h) AND VGA_AC_CONTROL_8BIT h \<noteq> 0 \<Longrightarrow>
         ConsoleFramebuffer s = GraphicsBuffer b \<Longrightarrow> length b = n \<Longrightarrow>
         (\<And>k j. int (i + k) < sint (Y Resolution) \<Longrightarrow> int j < sint (X Resolution) \<Longrightarrow>
              unat ((Address + of_nat k * ScanlineSize + of_nat (j div 4)) * AddressSize)
                < VGA_BANK_SIZE) \<Longrightarrow>
         \<exists>s1. VgaUpdateFramebuffer_lines h s Resolution AddressSize ScanlineSize Address i
                 = Some s1"
proof (induction "nat (sint (Y Resolution)) - i" arbitrary: i s b Address)
  case 0
  then have "\<not> int i < sint (Y Resolution)" by simp
  then show ?case by (simp add: lines_stop)
next
  case (Suc m)
  then have i: "int i < sint (Y Resolution)"
    and m: "m = nat (sint (Y Resolution)) - (i + 1)" by simp_all
  from i have "i + 1 \<le> nat (sint (Y Resolution))" by simp
  then have "(i + 1) * nat (sint (X Resolution))
               \<le> nat (sint (Y Resolution)) * nat (sint (X Resolution))"
    by (rule mult_le_mono1)
  with l have l1: "i * nat (sint (X Resolution)) + nat (sint (X Resolution)) \<le> n"
    by (simp add: mult.commute)
  have v: "\<And>j. int j < sint (X Resolution) \<Longrightarrow>
              unat ((Address + of_nat (j div 4)) * AddressSize) < VGA_BANK_SIZE"
    using Suc.prems(4) [of 0] i by simp
  from pixels_some [OF x l1 v Suc.prems(1) Suc.prems(2) Suc.prems(3), where j = 0]
  obtain s2 b2 where
    a: "VgaUpdateFramebuffer_pixels h s Resolution AddressSize Address i 0 = Some s2"
    and b: "ConsoleFramebuffer s2 = GraphicsBuffer b2" and c: "length b2 = n"
    by auto
  from scanout_fields(8) [OF pixels_frame [OF a]] Suc.prems(1)
  have b8: "VgaAcRegisters s2 (VGA_AC_CONTROL_REG h) AND VGA_AC_CONTROL_8BIT h \<noteq> 0" by simp
  have w: "\<And>k j. int (i + 1 + k) < sint (Y Resolution) \<Longrightarrow> int j < sint (X Resolution) \<Longrightarrow>
              unat ((Address + ScanlineSize + of_nat k * ScanlineSize + of_nat (j div 4))
                     * AddressSize) < VGA_BANK_SIZE"
  proof -
    fix k j
    assume "int (i + 1 + k) < sint (Y Resolution)" and "int j < sint (X Resolution)"
    with Suc.prems(4) [of "k + 1" j]
    show "unat ((Address + ScanlineSize + of_nat k * ScanlineSize + of_nat (j div 4))
                 * AddressSize) < VGA_BANK_SIZE"
      by (simp add: algebra_simps)
  qed
  from Suc.hyps(1) [OF m b8 b c w] a i show ?case by (simp add: lines_step)
qed

lemma lines_no_buffer:
  assumes "ConsoleFramebuffer s = NoBuffer"
    and "0 < sint (X Resolution)" and "0 < sint (Y Resolution)"
  shows "VgaUpdateFramebuffer_lines h s Resolution AddressSize ScanlineSize Address 0 = None"
  using assms
  by (simp add: lines_step pixels_step VgaUpdateFramebuffer_pixel_def split: option.splits)

lemma unat_add_le: "unat (a + b :: 'a::len word) \<le> unat a + unat b"
  by (simp add: unat_word_ariths)

lemma unat_mult_le: "unat (a * b :: 'a::len word) \<le> unat a * unat b"
  by (simp add: unat_word_ariths)

lemma unat_of_nat_le: "unat (of_nat n :: 'a::len word) \<le> n"
  by (simp add: unat_of_nat)

lemma unat_ucast_byte: "unat (ucast (b :: BYTE) :: DWORD) = unat b"
  using unsigned_less [of b, where 'a = nat]
  by (simp add: unsigned_ucast_eq take_bit_nat_eq_self)

lemma start_address_le:
  "unat (push_bit 8 (ucast (hi :: BYTE)) + ucast (lo :: BYTE) :: DWORD) \<le> unat hi * 256 + unat lo"
proof -
  have "unat (push_bit 8 (ucast hi) :: DWORD) \<le> unat hi * 256"
    using unat_mult_le [of "ucast hi :: DWORD" 256]
    by (simp add: push_bit_eq_mult unat_ucast_byte)
  with unat_add_le [of "push_bit 8 (ucast hi) :: DWORD" "ucast lo"] show ?thesis
    by (simp add: unat_ucast_byte)
qed

lemma scanline_size_le: "unat (ucast (off :: BYTE) * 2 :: DWORD) \<le> 2 * unat off"
  using unat_mult_le [of "ucast off :: DWORD" 2] by (simp add: unat_ucast_byte)

lemma scan_bound:
  fixes hi lo off :: BYTE and AddressSize :: DWORD
  assumes H: "(unat hi * 256 + unat lo + 99 * (2 * unat off) + 39) * unat AddressSize
                < VGA_BANK_SIZE"
    and k: "k < 100" and j: "j < 160"
  shows "unat ((push_bit 8 (ucast hi) + ucast lo + of_nat k * (ucast off * 2)
                 + of_nat (j div 4)) * AddressSize) < VGA_BANK_SIZE"
proof -
  let ?A = "push_bit 8 (ucast hi) + ucast lo :: DWORD"
  let ?S = "ucast off * 2 :: DWORD"
  have "unat (of_nat k * ?S) \<le> k * (2 * unat off)"
    using unat_mult_le [of "of_nat k" ?S] unat_of_nat_le [of k, where 'a = 32]
      scanline_size_le [of off] mult_le_mono [of "unat (of_nat k :: DWORD)" k "unat ?S" "2 * unat off"]
    by linarith
  also from k have "\<dots> \<le> 99 * (2 * unat off)" by simp
  finally have b: "unat (of_nat k * ?S) \<le> 99 * (2 * unat off)" .
  from j have "j div 4 \<le> 39" by simp
  with unat_of_nat_le [of "j div 4", where 'a = 32]
  have c: "unat (of_nat (j div 4) :: DWORD) \<le> 39" by linarith
  have "unat (?A + of_nat k * ?S + of_nat (j div 4))
          \<le> unat hi * 256 + unat lo + 99 * (2 * unat off) + 39"
    using unat_add_le [of "?A + of_nat k * ?S" "of_nat (j div 4)"]
      unat_add_le [of ?A "of_nat k * ?S"] start_address_le [of hi lo] b c
    by linarith
  then have "unat (?A + of_nat k * ?S + of_nat (j div 4)) * unat AddressSize
          \<le> (unat hi * 256 + unat lo + 99 * (2 * unat off) + 39) * unat AddressSize"
    by (rule mult_le_mono1)
  with unat_mult_le [of "?A + of_nat k * ?S + of_nat (j div 4)" AddressSize] H
  show ?thesis by linarith
qed

lemma scanline_size_zero: "(ucast (off :: BYTE) * 2 :: DWORD) = 0 \<longleftrightarrow> off = 0"
proof -
  have "unat (ucast off * 2 :: DWORD) = unat off * 2"
    using unsigned_less [of off, where 'a = nat]
    by (simp add: unat_word_ariths unat_ucast_byte)
  then show ?thesis by (metis mult_eq_0_iff unat_eq_0 zero_neq_numeral)
qed

lemma sint_160: "sint (160 :: 16 word) = 160" by simp
lemma sint_100: "sint (100 :: 16 word) = 100" by simp

lemma VgaRefreshDisplay_graphics_some:
  assumes na: "VgaGcRegisters s (VGA_GC_MISC_REG h) AND VGA_GC_MISC_NOALPHA h \<noteq> 0"
    and c: "CursorMoved s \<longrightarrow> VgaCrtcRegisters s (VGA_CRTC_OFFSET_REG h) \<noteq> 0"
    and f: "VgaUpdateFramebuffer h
              ((if ModeChanged s then (VgaUpdateMode h ho s)\<lparr>ModeChanged := False\<rparr> else s)
                 \<lparr>CursorMoved := False\<rparr>) = Some s3"
  shows "\<exists>s1. VgaRefreshDisplay h ho s = Some s1"
proof -
  let ?s0 = "if ModeChanged s then (VgaUpdateMode h ho s)\<lparr>ModeChanged := False\<rparr> else s"
  have cm: "CursorMoved ?s0 = CursorMoved s" by (simp add: VgaUpdateMode_fields)
  have o: "VgaCrtcRegisters ?s0 = VgaCrtcRegisters s" by (simp add: VgaUpdateMode_fields)
  have g: "VgaGcRegisters ?s0 = VgaGcRegisters s" by (simp add: VgaUpdateMode_fields)
  from scanout_fields(6) [OF VgaUpdateFramebuffer_frame [OF f]] g
  have n3: "VgaGcRegisters s3 (VGA_GC_MISC_REG h) AND VGA_GC_MISC_NOALPHA h \<noteq> 0"
    using na by simp
  show ?thesis
  proof (cases "CursorMoved s")
    case True
    with c o have "VgaUpdateTextCursor h ?s0 = Some ?s0"
      by (simp add: VgaUpdateTextCursor_def scanline_size_zero)
    with True cm f n3 show ?thesis
      unfolding VgaRefreshDisplay_def Let_def by simp
  next
    case False
    with cm have "?s0\<lparr>CursorMoved := False\<rparr> = ?s0" by simp
    with False cm f n3 show ?thesis
      unfolding VgaRefreshDisplay_def Let_def by simp
  qed
qed

lemma resolution_cong:
  assumes "VgaSeqRegisters s1 = VgaSeqRegisters s" "VgaGcRegisters s1 = VgaGcRegisters s"
    "VgaCrtcRegisters s1 = VgaCrtcRegisters s" "VgaAcRegisters s1 = VgaAcRegisters s"
  shows "VgaGetDisplayResolution h s1 = VgaGetDisplayResolution h s"
  by (simp only: VgaGetDisplayResolution_def assms)

lemma VgaUpdateMode_graphics:
  assumes na: "VgaGcRegisters s (VGA_GC_MISC_REG h) AND VGA_GC_MISC_NOALPHA h \<noteq> 0"
  shows "VgaUpdateMode h ho s =
    (if CreateConsoleScreenBuffer_ok ho
     then s\<lparr>ConsoleFramebuffer :=
              GraphicsBuffer (replicate (nat (sint (X (VgaGetDisplayResolution h s))
                                              * sint (Y (VgaGetDisplayResolution h s)))) 0),
            TextMode := False, NeedsUpdate := True,
            UpdateRectangle := \<lparr>Left = 0, Top = 0, Right = X (VgaGetDisplayResolution h s),
                                Bottom = Y (VgaGetDisplayResolution h s)\<rparr>\<rparr>
     else s\<lparr>ConsoleFramebuffer := NoBuffer\<rparr>)"
  using na
  by (simp add: VgaUpdateMode_def VgaEnterGraphicsMode_def VgaLeaveTextMode_def
      VgaLeaveGraphicsMode_def Let_def)

lemma refresh_160x100:
  assumes mc: "ModeChanged s"
    and na: "VgaGcRegisters s (VGA_GC_MISC_REG h) AND VGA_GC_MISC_NOALPHA h \<noteq> 0"
    and b8: "VgaAcRegisters s (VGA_AC_CONTROL_REG h) AND VGA_AC_CONTROL_8BIT h \<noteq> 0"
    and res: "VgaGetDisplayResolution h s = \<lparr>X = 160, Y = 100\<rparr>"
  shows "VgaRefreshDisplay h ho s = Some s1 \<Longrightarrow>
           VgaGetDisplayResolution h s1 = \<lparr>X = 160, Y = 100\<rparr> \<and> \<not> TextMode s1
           \<and> CreateConsoleScreenBuffer_ok ho
           \<and> (CursorMoved s \<longrightarrow> VgaCrtcRegisters s (VGA_CRTC_OFFSET_REG h) \<noteq> 0)"
    and "CreateConsoleScreenBuffer_ok ho \<Longrightarrow>
         (CursorMoved s \<longrightarrow> VgaCrtcRegisters s (VGA_CRTC_OFFSET_REG h) \<noteq> 0) \<Longrightarrow>
         (unat (VgaCrtcRegisters s (VGA_CRTC_START_ADDR_HIGH_REG h)) * 256
            + unat (VgaCrtcRegisters s (VGA_CRTC_START_ADDR_LOW_REG h))
            + 99 * (2 * unat (VgaCrtcRegisters s (VGA_CRTC_OFFSET_REG h))) + 39)
           * unat (VgaGetAddressSize h s) < VGA_BANK_SIZE \<Longrightarrow>
         \<exists>s1. VgaRefreshDisplay h ho s = Some s1"
proof -
  let ?s2 = "(if ModeChanged s then (VgaUpdateMode h ho s)\<lparr>ModeChanged := False\<rparr> else s)
               \<lparr>CursorMoved := False\<rparr>"
  let ?A = "push_bit 8 (ucast (VgaCrtcRegisters s (VGA_CRTC_START_ADDR_HIGH_REG h)))
              + ucast (VgaCrtcRegisters s (VGA_CRTC_START_ADDR_LOW_REG h)) :: DWORD"
  let ?S = "ucast (VgaCrtcRegisters s (VGA_CRTC_OFFSET_REG h)) * 2 :: DWORD"
  have r2: "VgaGetDisplayResolution h ?s2 = \<lparr>X = 160, Y = 100\<rparr>"
    using resolution_cong [of ?s2 s h] res mc by (simp add: VgaUpdateMode_fields)
  have z2: "VgaGetAddressSize h ?s2 = VgaGetAddressSize h s"
    using mc by (simp add: VgaGetAddressSize_def VgaUpdateMode_fields)
  have f2: "VgaUpdateFramebuffer h ?s2 =
      VgaUpdateFramebuffer_lines h ?s2 \<lparr>X = 160, Y = 100\<rparr> (VgaGetAddressSize h s) ?S ?A 0"
    using na mc unfolding VgaUpdateFramebuffer_def r2 z2 Let_def
    by (simp add: VgaUpdateMode_fields)
  have c2: "ConsoleFramebuffer ?s2 =
      (if CreateConsoleScreenBuffer_ok ho then GraphicsBuffer (replicate 16000 0) else NoBuffer)"
    using mc by (simp add: VgaUpdateMode_graphics [OF na] res)
  have t2: "CreateConsoleScreenBuffer_ok ho \<Longrightarrow> \<not> TextMode ?s2"
    using mc by (simp add: VgaUpdateMode_graphics [OF na])
  have a2: "VgaAcRegisters ?s2 (VGA_AC_CONTROL_REG h) AND VGA_AC_CONTROL_8BIT h \<noteq> 0"
    using mc b8 by (simp add: VgaUpdateMode_fields)
  {
    assume a: "VgaRefreshDisplay h ho s = Some s1"
    then obtain s3 nu ur where f: "VgaUpdateFramebuffer h ?s2 = Some s3"
      and e: "s1 = s3\<lparr>InVerticalRetrace := True, NeedsUpdate := nu, UpdateRectangle := ur\<rparr>"
      and c: "CursorMoved s \<longrightarrow>
           VgaUpdateTextCursor h
             (if ModeChanged s then (VgaUpdateMode h ho s)\<lparr>ModeChanged := False\<rparr> else s)
             \<noteq> None"
      by (rule VgaRefreshDisplay_steps) simp
    from c mc have cu: "CursorMoved s \<longrightarrow> VgaCrtcRegisters s (VGA_CRTC_OFFSET_REG h) \<noteq> 0"
      by (auto simp: VgaUpdateTextCursor_def VgaUpdateMode_fields)
    have ok: "CreateConsoleScreenBuffer_ok ho"
    proof (rule ccontr)
      assume "\<not> CreateConsoleScreenBuffer_ok ho"
      with c2 have "ConsoleFramebuffer ?s2 = NoBuffer" by simp
      from lines_no_buffer [OF this, of "\<lparr>X = 160, Y = 100\<rparr>"] f f2 show False by simp
    qed
    note g = scanout_fields [OF VgaUpdateFramebuffer_frame [OF f]]
    from g(9) t2 [OF ok] e have "\<not> TextMode s1" by simp
    moreover from resolution_cong [of s1 s h] VgaRefreshDisplay_fields [OF a] res
    have "VgaGetDisplayResolution h s1 = \<lparr>X = 160, Y = 100\<rparr>" by simp
    ultimately show "VgaGetDisplayResolution h s1 = \<lparr>X = 160, Y = 100\<rparr> \<and> \<not> TextMode s1
           \<and> CreateConsoleScreenBuffer_ok ho
           \<and> (CursorMoved s \<longrightarrow> VgaCrtcRegisters s (VGA_CRTC_OFFSET_REG h) \<noteq> 0)"
      using ok cu by simp
  }
  {
    assume ok: "CreateConsoleScreenBuffer_ok ho"
      and c: "CursorMoved s \<longrightarrow> VgaCrtcRegisters s (VGA_CRTC_OFFSET_REG h) \<noteq> 0"
      and H: "(unat (VgaCrtcRegisters s (VGA_CRTC_START_ADDR_HIGH_REG h)) * 256
            + unat (VgaCrtcRegisters s (VGA_CRTC_START_ADDR_LOW_REG h))
            + 99 * (2 * unat (VgaCrtcRegisters s (VGA_CRTC_OFFSET_REG h))) + 39)
           * unat (VgaGetAddressSize h s) < VGA_BANK_SIZE"
    from c2 ok have cf: "ConsoleFramebuffer ?s2 = GraphicsBuffer (replicate 16000 0)" by simp
    have "\<exists>s3. VgaUpdateFramebuffer_lines h ?s2 \<lparr>X = 160, Y = 100\<rparr> (VgaGetAddressSize h s)
                  ?S ?A 0 = Some s3"
    proof (rule lines_some [OF _ _ a2 cf, where n = 16000])
      show "0 \<le> sint (X \<lparr>X = 160 :: 16 word, Y = 100 :: 16 word\<rparr>)" by simp
      show "nat (sint (X \<lparr>X = 160 :: 16 word, Y = 100 :: 16 word\<rparr>))
              * nat (sint (Y \<lparr>X = 160 :: 16 word, Y = 100 :: 16 word\<rparr>)) \<le> 16000" by simp
      show "length (replicate 16000 (0 :: BYTE)) = 16000" by simp
      fix k j
      assume "int (0 + k) < sint (Y \<lparr>X = 160 :: 16 word, Y = 100 :: 16 word\<rparr>)"
        and "int j < sint (X \<lparr>X = 160 :: 16 word, Y = 100 :: 16 word\<rparr>)"
      then have "k < 100" and "j < 160" by simp_all
      from scan_bound [OF H this]
      show "unat ((?A + of_nat k * ?S + of_nat (j div 4)) * VgaGetAddressSize h s)
              < VGA_BANK_SIZE" .
    qed
    then obtain s3 where "VgaUpdateFramebuffer h ?s2 = Some s3" using f2 by auto
    from VgaRefreshDisplay_graphics_some [OF na c this]
    show "\<exists>s1. VgaRefreshDisplay h ho s = Some s1" .
  }
qed

text \<open>
  C1, as the claim states it: after the register sequence (NOALPHA in the GC's Misc
  register, the 8-dot bit in the sequencer's clock register, 8BIT in the AC's control
  register, END_HORZ_DISP = 39, VERT_DISP_END = 199, MaxScanLine = 1, OVERFLOW = 0) the
  resolution is 320 by 200, and the refresh yields \<^verbatim>\<open>TextMode\<close> false. It fails:
  \<^verbatim>\<open>VgaGetDisplayResolution\<close> halves the 320 dots for 8BIT and divides the 200 lines by
  MaxScanLine + 1 = 2. And the refresh yields nothing when the host refuses the graphics
  surface: \<^verbatim>\<open>VgaUpdateMode\<close> has freed the cells and stored \<^verbatim>\<open>NULL\<close>, and the scan-out reads
  the first pixel through it.
\<close>

theorem S2_resolution_counterexample:
  "VgaGetDisplayResolution vga_h_std
     (VgaWritePorts vga_h_std (vga_init vga_h_std) (S2_sequence vga_h_std 0x01 0x01 0x40))
     = \<lparr>X = 160, Y = 100\<rparr>
   \<and> VgaGetDisplayResolution vga_h_std
     (VgaWritePorts vga_h_std (vga_init vga_h_std) (S2_sequence vga_h_std 0x01 0x01 0x40))
     \<noteq> \<lparr>X = 320, Y = 200\<rparr>
   \<and> VgaRefreshDisplay vga_h_std
       \<lparr>CreateConsoleScreenBuffer_ok = False, HeapAlloc_ok = True,
        WriteConsoleOutputA_region = \<lparr>Left = 0, Top = 0, Right = 0, Bottom = 0\<rparr>\<rparr>
       (VgaWritePorts vga_h_std (vga_init vga_h_std) (S2_sequence vga_h_std 0x01 0x01 0x40))
     = None"
proof -
  let ?s1 = "VgaWritePorts vga_h_std (vga_init vga_h_std)
               (S2_sequence vga_h_std 0x01 0x01 0x40)"
  let ?ho = "\<lparr>CreateConsoleScreenBuffer_ok = False, HeapAlloc_ok = True,
              WriteConsoleOutputA_region = \<lparr>Left = 0, Top = 0, Right = 0, Bottom = 0\<rparr>\<rparr>"
  have l: "\<not> VgaAcLatch (vga_init vga_h_std)" by (simp add: vga_init_def)
  note e = S2_state [OF ports_ok_std regs_ok_std l, of "0x01" "0x01" "0x40"]
  have res: "VgaGetDisplayResolution vga_h_std ?s1 = \<lparr>X = 160, Y = 100\<rparr>"
    by (simp add: e VgaGetDisplayResolution_def) (simp add: vga_h_std_def vga_init_def)
  have mc: "ModeChanged ?s1" by (simp add: e)
  have g: "VgaGcRegisters ?s1 (VGA_GC_MISC_REG vga_h_std)
             AND VGA_GC_MISC_NOALPHA vga_h_std \<noteq> 0"
    by (simp add: e) (simp add: vga_h_std_def)
  have a: "VgaAcRegisters ?s1 (VGA_AC_CONTROL_REG vga_h_std)
             AND VGA_AC_CONTROL_8BIT vga_h_std \<noteq> 0"
    by (simp add: e) (simp add: vga_h_std_def)
  have "VgaRefreshDisplay vga_h_std ?ho ?s1 = None"
  proof (cases "VgaRefreshDisplay vga_h_std ?ho ?s1")
    case None
    then show ?thesis .
  next
    case (Some s2)
    from refresh_160x100(1) [OF mc g a res Some] show ?thesis by simp
  qed
  with res show ?thesis by simp
qed

text \<open>
  C1, amended: from a state with the AC latch clear, the register sequence yields a
  resolution of 160 by 100, and a following refresh that returns leaves the resolution at
  160 by 100 and \<^verbatim>\<open>TextMode\<close> false. The refresh returns when the host creates the graphics
  surface, the cursor update does not divide by a CRTC Offset of 0 (no cursor move is
  pending, or the Offset is not 0), and the 100 scanlines of 40 addresses each, counted
  from the CRTC start address in steps of twice the Offset and multiplied by the address
  size, lie inside one plane.
\<close>

theorem S2_resolution:
  assumes p: "ports_ok h" and r: "regs_ok h" and l: "\<not> VgaAcLatch s"
    and na: "gc_misc AND VGA_GC_MISC_NOALPHA h \<noteq> 0"
    and dm: "seq_clock AND VGA_SEQ_CLOCK_98DM h \<noteq> 0"
    and b8: "ac_control AND VGA_AC_CONTROL_8BIT h \<noteq> 0"
  shows "(let s1 = VgaWritePorts h s (S2_sequence h gc_misc seq_clock ac_control)
          in VgaGetDisplayResolution h s1 = \<lparr>X = 160, Y = 100\<rparr>
             \<and> (\<forall>s2. VgaRefreshDisplay h ho s1 = Some s2 \<longrightarrow>
                    VgaGetDisplayResolution h s2 = \<lparr>X = 160, Y = 100\<rparr> \<and> \<not> TextMode s2)
             \<and> (CreateConsoleScreenBuffer_ok ho
                 \<and> (CursorMoved s1 \<longrightarrow> VgaCrtcRegisters s1 (VGA_CRTC_OFFSET_REG h) \<noteq> 0)
                 \<and> (unat (VgaCrtcRegisters s1 (VGA_CRTC_START_ADDR_HIGH_REG h)) * 256
                      + unat (VgaCrtcRegisters s1 (VGA_CRTC_START_ADDR_LOW_REG h))
                      + 99 * (2 * unat (VgaCrtcRegisters s1 (VGA_CRTC_OFFSET_REG h))) + 39)
                     * unat (VgaGetAddressSize h s1) < VGA_BANK_SIZE
                 \<longrightarrow> (\<exists>s2. VgaRefreshDisplay h ho s1 = Some s2)))"
proof -
  define s1 where "s1 = VgaWritePorts h s (S2_sequence h gc_misc seq_clock ac_control)"
  note e = S2_state [OF p r l, of gc_misc seq_clock ac_control, folded s1_def]
  have mc: "ModeChanged s1" by (simp add: e)
  have g: "VgaGcRegisters s1 (VGA_GC_MISC_REG h) AND VGA_GC_MISC_NOALPHA h \<noteq> 0"
    using na by (simp add: e)
  have a: "VgaAcRegisters s1 (VGA_AC_CONTROL_REG h) AND VGA_AC_CONTROL_8BIT h \<noteq> 0"
    using b8 by (simp add: e)
  have res: "VgaGetDisplayResolution h s1 = \<lparr>X = 160, Y = 100\<rparr>"
    using crtc_regs_distinct [OF r] na dm b8
    by (simp add: e VgaGetDisplayResolution_def Let_def crtc_regs_def del: distinct_rev)
  note rf = refresh_160x100 [OF mc g a res, of ho]
  from res rf show ?thesis unfolding s1_def [symmetric] Let_def by blast
qed

theorem S2_resolution_witness:
  "ports_ok vga_h_std \<and> regs_ok vga_h_std \<and> \<not> VgaAcLatch (vga_init vga_h_std)
   \<and> (0x01 :: BYTE) AND VGA_GC_MISC_NOALPHA vga_h_std \<noteq> 0
   \<and> (0x01 :: BYTE) AND VGA_SEQ_CLOCK_98DM vga_h_std \<noteq> 0
   \<and> (0x40 :: BYTE) AND VGA_AC_CONTROL_8BIT vga_h_std \<noteq> 0
   \<and> (let ho = \<lparr>CreateConsoleScreenBuffer_ok = True, HeapAlloc_ok = True,
                  WriteConsoleOutputA_region = \<lparr>Left = 0, Top = 0, Right = 0, Bottom = 0\<rparr>\<rparr>;
            s1 = VgaWritePorts vga_h_std (vga_init vga_h_std)
                  (S2_sequence vga_h_std 0x01 0x01 0x40)
        in VgaGetDisplayResolution vga_h_std s1 = \<lparr>X = 160, Y = 100\<rparr>
           \<and> CreateConsoleScreenBuffer_ok ho
           \<and> \<not> CursorMoved s1
           \<and> (unat (VgaCrtcRegisters s1 (VGA_CRTC_START_ADDR_HIGH_REG vga_h_std)) * 256
                + unat (VgaCrtcRegisters s1 (VGA_CRTC_START_ADDR_LOW_REG vga_h_std))
                + 99 * (2 * unat (VgaCrtcRegisters s1 (VGA_CRTC_OFFSET_REG vga_h_std))) + 39)
               * unat (VgaGetAddressSize vga_h_std s1) < VGA_BANK_SIZE
           \<and> (\<exists>s2. VgaRefreshDisplay vga_h_std ho s1 = Some s2
                  \<and> VgaGetDisplayResolution vga_h_std s2 = \<lparr>X = 160, Y = 100\<rparr>
                  \<and> \<not> TextMode s2))"
proof -
  let ?ho = "\<lparr>CreateConsoleScreenBuffer_ok = True, HeapAlloc_ok = True,
              WriteConsoleOutputA_region = \<lparr>Left = 0, Top = 0, Right = 0, Bottom = 0\<rparr>\<rparr>"
  let ?s1 = "VgaWritePorts vga_h_std (vga_init vga_h_std)
               (S2_sequence vga_h_std 0x01 0x01 0x40)"
  have l: "\<not> VgaAcLatch (vga_init vga_h_std)" by (simp add: vga_init_def)
  have na: "(0x01 :: BYTE) AND VGA_GC_MISC_NOALPHA vga_h_std \<noteq> 0"
    and dm: "(0x01 :: BYTE) AND VGA_SEQ_CLOCK_98DM vga_h_std \<noteq> 0"
    and b8: "(0x40 :: BYTE) AND VGA_AC_CONTROL_8BIT vga_h_std \<noteq> 0"
    by (simp_all add: vga_h_std_def)
  note e = S2_state [OF ports_ok_std regs_ok_std l, of "0x01" "0x01" "0x40"]
  have cm: "\<not> CursorMoved ?s1" by (simp add: e) (simp add: vga_init_def)
  have k: "VGA_CRTC_START_ADDR_HIGH_REG vga_h_std = 12"
    "VGA_CRTC_START_ADDR_LOW_REG vga_h_std = 13" "VGA_CRTC_OFFSET_REG vga_h_std = 19"
    "VGA_CRTC_END_HORZ_DISP_REG vga_h_std = 1" "VGA_CRTC_VERT_DISP_END_REG vga_h_std = 18"
    "VGA_CRTC_MAX_SCAN_LINE_REG vga_h_std = 9" "VGA_CRTC_OVERFLOW_REG vga_h_std = 7"
    "VGA_CRTC_UNDERLINE_REG vga_h_std = 20" "VGA_CRTC_MODE_CONTROL_REG vga_h_std = 23"
    by (simp_all add: vga_h_std_def)
  have c0: "VgaCrtcRegisters (vga_init vga_h_std) = (\<lambda>_. 0)" by (simp add: vga_init_def)
  have "VgaGetAddressSize vga_h_std ?s1 = 2"
    by (simp add: e VgaGetAddressSize_def k c0)
  moreover have "VgaCrtcRegisters ?s1 (VGA_CRTC_START_ADDR_HIGH_REG vga_h_std) = 0"
    "VgaCrtcRegisters ?s1 (VGA_CRTC_START_ADDR_LOW_REG vga_h_std) = 0"
    "VgaCrtcRegisters ?s1 (VGA_CRTC_OFFSET_REG vga_h_std) = 0"
    by (simp_all add: e k c0)
  ultimately have bd:
    "(unat (VgaCrtcRegisters ?s1 (VGA_CRTC_START_ADDR_HIGH_REG vga_h_std)) * 256
       + unat (VgaCrtcRegisters ?s1 (VGA_CRTC_START_ADDR_LOW_REG vga_h_std))
       + 99 * (2 * unat (VgaCrtcRegisters ?s1 (VGA_CRTC_OFFSET_REG vga_h_std))) + 39)
      * unat (VgaGetAddressSize vga_h_std ?s1) < VGA_BANK_SIZE"
    by (simp add: VGA_BANK_SIZE_def)
  have ok: "CreateConsoleScreenBuffer_ok ?ho" by simp
  from S2_resolution [OF ports_ok_std regs_ok_std l na dm b8, where ho = ?ho]
  have t: "VgaGetDisplayResolution vga_h_std ?s1 = \<lparr>X = 160, Y = 100\<rparr>
      \<and> (\<exists>s2. VgaRefreshDisplay vga_h_std ?ho ?s1 = Some s2
             \<and> VgaGetDisplayResolution vga_h_std s2 = \<lparr>X = 160, Y = 100\<rparr>
             \<and> \<not> TextMode s2)"
    unfolding Let_def using cm bd ok by blast
  from t ports_ok_std regs_ok_std l na dm b8 cm bd ok show ?thesis
    unfolding Let_def by blast
qed

subsection \<open>The DAC index\<close>

text \<open>
  What the code does: after a write of \<open>k\<close> to \<^verbatim>\<open>VGA_DAC_WRITE_INDEX\<close> and \<open>n\<close> writes to
  \<^verbatim>\<open>VGA_DAC_DATA\<close> the index is \<open>k + n\<close> in 8-bit arithmetic, since
  \<^verbatim>\<open>VGA_PALETTE_SIZE\<close> is more than a \<^verbatim>\<open>BYTE\<close> holds; and for up to 256 writes, byte
  number \<open>i\<close> is stored, masked with 3Fh, at index \<open>k + i\<close> in 8-bit arithmetic.
\<close>

lemma byte_mod_palette: "unat (b :: BYTE) mod VGA_PALETTE_SIZE = unat b"
proof -
  have "unat b < 256" using unsigned_less [of b, where 'a = nat] by simp
  then show ?thesis by (simp add: VGA_PALETTE_SIZE_def)
qed

lemma dac_data_writes:
  assumes p: "ports_ok h" and w: "VgaDacReadWrite s"
  shows "VgaDacReadWrite (VgaWritePorts h s (map (Pair (VGA_DAC_DATA h)) ds))
    \<and> VgaDacIndex (VgaWritePorts h s (map (Pair (VGA_DAC_DATA h)) ds))
        = VgaDacIndex s + of_nat (length ds)"
  using w
proof (induction ds arbitrary: s)
  case Nil
  then show ?case by simp
next
  case (Cons d ds)
  let ?s1 = "VgaWritePort h s (VGA_DAC_DATA h) d"
  from Cons.prems have a: "VgaDacReadWrite ?s1" "VgaDacIndex ?s1 = VgaDacIndex s + 1"
    by (simp_all add: VgaWritePort_DAC_DATA [OF p] VgaWriteDac_def byte_mod_palette)
  from Cons.IH [OF a(1)] a(2) show ?case by (simp add: add.assoc)
qed

lemma dac_index_after_writes:
  assumes p: "ports_ok h"
  shows "VgaDacIndex (VgaWritePorts h s
           ((VGA_DAC_WRITE_INDEX h, k) # map (Pair (VGA_DAC_DATA h)) ds))
         = k + of_nat (length ds)"
proof -
  let ?s1 = "VgaWritePort h s (VGA_DAC_WRITE_INDEX h) k"
  have a: "VgaDacReadWrite ?s1" "VgaDacIndex ?s1 = k"
    by (simp_all add: VgaWritePort_DAC_WRITE_INDEX [OF p] byte_mod_palette)
  from dac_data_writes [OF p a(1), of ds] a(2) show ?thesis by simp
qed

lemma dac_data_untouched:
  assumes p: "ports_ok h"
  shows "VgaDacReadWrite s \<Longrightarrow> \<forall>j < length ds. unat (VgaDacIndex s + of_nat j) \<noteq> q
    \<Longrightarrow> VgaDacRegisters (VgaWritePorts h s (map (Pair (VGA_DAC_DATA h)) ds)) q
        = VgaDacRegisters s q"
proof (induction ds arbitrary: s)
  case Nil
  then show ?case by simp
next
  case (Cons d ds)
  let ?s1 = "VgaWritePort h s (VGA_DAC_DATA h) d"
  from Cons.prems(1) have a: "VgaDacReadWrite ?s1" "VgaDacIndex ?s1 = VgaDacIndex s + 1"
    "VgaDacRegisters ?s1 = (VgaDacRegisters s)(unat (VgaDacIndex s) := d AND 0x3F)"
    by (simp_all add: VgaWritePort_DAC_DATA [OF p] VgaWriteDac_def byte_mod_palette)
  from Cons.prems(2) have z: "unat (VgaDacIndex s) \<noteq> q" by fastforce
  have "\<forall>j < length ds. unat (VgaDacIndex ?s1 + of_nat j) \<noteq> q"
  proof (intro allI impI)
    fix j assume "j < length ds"
    with Cons.prems(2) have "unat (VgaDacIndex s + of_nat (Suc j)) \<noteq> q" by auto
    then show "unat (VgaDacIndex ?s1 + of_nat j) \<noteq> q" by (simp add: a(2) add.assoc)
  qed
  from Cons.IH [OF a(1) this] a(3) z show ?case by simp
qed

lemma byte_step_neq:
  assumes "j < 255"
  shows "unat ((x :: BYTE) + 1 + of_nat j) \<noteq> unat x"
proof
  assume "unat (x + 1 + of_nat j) = unat x"
  then have "x + 1 + of_nat j = x" by (simp add: word_unat_eq_iff)
  then have "(of_nat (Suc j) :: BYTE) = 0" by (simp add: add.assoc)
  then have "2 ^ LENGTH(8) dvd Suc j" by (simp only: word_of_nat_eq_0_iff)
  then have "256 dvd Suc j" by simp
  then have "256 \<le> Suc j" by (rule dvd_imp_le) simp
  with assms show False by simp
qed

lemma dac_data_stored:
  assumes p: "ports_ok h"
  shows "VgaDacReadWrite s \<Longrightarrow> length ds \<le> 256 \<Longrightarrow> i < length ds
    \<Longrightarrow> VgaDacRegisters (VgaWritePorts h s (map (Pair (VGA_DAC_DATA h)) ds))
          (unat (VgaDacIndex s + of_nat i)) = ds ! i AND 0x3F"
proof (induction ds arbitrary: s i)
  case Nil
  then show ?case by simp
next
  case (Cons d ds)
  let ?s1 = "VgaWritePort h s (VGA_DAC_DATA h) d"
  from Cons.prems(1) have a: "VgaDacReadWrite ?s1" "VgaDacIndex ?s1 = VgaDacIndex s + 1"
    "VgaDacRegisters ?s1 = (VgaDacRegisters s)(unat (VgaDacIndex s) := d AND 0x3F)"
    by (simp_all add: VgaWritePort_DAC_DATA [OF p] VgaWriteDac_def byte_mod_palette)
  show ?case
  proof (cases i)
    case 0
    have "\<forall>j < length ds. unat (VgaDacIndex ?s1 + of_nat j) \<noteq> unat (VgaDacIndex s)"
      using Cons.prems(2) by (auto simp: a(2) intro!: byte_step_neq)
    from dac_data_untouched [OF p a(1) this] 0 show ?thesis by (simp add: a(3))
  next
    case (Suc i')
    with Cons.prems have "length ds \<le> 256" "i' < length ds" by simp_all
    from Cons.IH [OF a(1) this] Suc show ?thesis by (simp add: a(2) add.assoc)
  qed
qed

lemma dac_bytes_after_writes:
  assumes p: "ports_ok h" and n: "length ds \<le> 256" and i: "i < length ds"
  shows "VgaDacRegisters (VgaWritePorts h s
           ((VGA_DAC_WRITE_INDEX h, k) # map (Pair (VGA_DAC_DATA h)) ds))
           (unat (k + of_nat i)) = ds ! i AND 0x3F"
proof -
  let ?s1 = "VgaWritePort h s (VGA_DAC_WRITE_INDEX h) k"
  have a: "VgaDacReadWrite ?s1" "VgaDacIndex ?s1 = k"
    by (simp_all add: VgaWritePort_DAC_WRITE_INDEX [OF p] byte_mod_palette)
  from dac_data_stored [OF p a(1) n i] a(2) show ?thesis by simp
qed

text \<open>
  C6: after writing \<open>k\<close> to \<^verbatim>\<open>VGA_DAC_WRITE_INDEX\<close> and \<open>n\<close> bytes to \<^verbatim>\<open>VGA_DAC_DATA\<close> the DAC
  index should be \<open>(k + n) mod VGA_PALETTE_SIZE\<close>, each stored byte the input masked with
  3Fh. The code at \<open>k = 255\<close>, \<open>n = 1\<close>: the byte is stored masked at index 255, and the
  index is then 0, where the claim has \<open>(255 + 1) mod 768 = 256\<close>.
\<close>

theorem dac_index_wraps_at_256:
  "(let s1 = VgaWritePorts vga_h_std (vga_init vga_h_std)
               [(VGA_DAC_WRITE_INDEX vga_h_std, 255), (VGA_DAC_DATA vga_h_std, 0x55)]
    in unat (VgaDacIndex s1) = 0 \<and> VgaDacRegisters s1 255 = 0x15)
   \<and> (255 + 1) mod VGA_PALETTE_SIZE = 256"
  by (simp add: VgaWritePort_DAC_WRITE_INDEX [OF ports_ok_std]
      VgaWritePort_DAC_DATA [OF ports_ok_std] VgaWriteDac_def VGA_PALETTE_SIZE_def Let_def)

subsection \<open>The plane mask\<close>

text \<open>
  What the code does: as long as every translated offset of the call stays below
  \<^verbatim>\<open>VGA_BANK_SIZE\<close>, a byte of \<^verbatim>\<open>VgaMemory\<close> whose plane has its bit clear in the mask keeps
  its value.
\<close>

lemma tw_memory [simp]:
  "VgaTranslateWriteAddress h (s\<lparr>VgaMemory := mm\<rparr>) a = VgaTranslateWriteAddress h s a"
  by (simp add: VgaTranslateWriteAddress_def Let_def cong: if_cong)

lemma bank_index:
  fixes VA :: DWORD
  assumes "unat VA < 65536" and "j < 4"
  shows "unat (VA + of_nat j * 65536) = unat VA + j * 65536"
proof -
  from assms(2) have "j = 0 \<or> j = 1 \<or> j = 2 \<or> j = 3" by arith
  then show ?thesis using assms(1) by (elim disjE) (simp_all add: unat_word_ariths)
qed

lemma plane_gate:
  assumes w: "VgaWriteMemory_plane h s Address Buffer i VA j = Some s1"
    and v: "unat VA < VGA_BANK_SIZE" and j: "j < VGA_NUM_BANKS"
    and c: "VgaSeqRegisters s (VGA_SEQ_MASK_REG h) AND push_bit (k div VGA_BANK_SIZE) 1 = 0"
  shows "VgaMemory s1 k = VgaMemory s k"
proof (cases "k div VGA_BANK_SIZE = j")
  case True
  with c w show ?thesis by (simp add: VgaWriteMemory_plane_def)
next
  case False
  from v j have "unat (VA + of_nat j * of_nat VGA_BANK_SIZE) = unat VA + j * VGA_BANK_SIZE"
    using bank_index [of VA j] by (simp add: VGA_BANK_SIZE_def VGA_NUM_BANKS_def)
  with v have "unat (VA + of_nat j * of_nat VGA_BANK_SIZE) div VGA_BANK_SIZE = j"
    by (simp add: VGA_BANK_SIZE_def)
  with False have "unat (VA + of_nat j * of_nat VGA_BANK_SIZE) \<noteq> k" by blast
  with w show ?thesis
    by (auto simp: VgaWriteMemory_plane_def Let_def split: if_splits)
qed

lemma frame_regs:
  assumes "s1 = s\<lparr>VgaMemory := mm\<rparr>"
  shows "VgaSeqRegisters s1 = VgaSeqRegisters s"
    and "VgaTranslateWriteAddress h s1 a = VgaTranslateWriteAddress h s a"
  by (simp_all add: assms)

lemma planes_gate:
  assumes "VgaWriteMemory_planes h s Address Buffer i VA j = Some s1"
    and "unat VA < VGA_BANK_SIZE"
    and "VgaSeqRegisters s (VGA_SEQ_MASK_REG h) AND push_bit (k div VGA_BANK_SIZE) 1 = 0"
  shows "VgaMemory s1 k = VgaMemory s k"
  using assms
proof (induction h s Address Buffer i VA j rule: VgaWriteMemory_planes.induct)
  case (1 h s Address Buffer i VA j)
  show ?case
  proof (cases "j < VGA_NUM_BANKS")
    case True
    with "1.prems"(1) obtain s2
      where a: "VgaWriteMemory_plane h s Address Buffer i VA j = Some s2"
        and b: "VgaWriteMemory_planes h s2 Address Buffer i VA (j + 1) = Some s1"
      by (simp add: planes_step split: option.splits)
    from frame_regs [OF plane_frame [OF a]] have "VgaSeqRegisters s2 = VgaSeqRegisters s"
      by simp
    with "1.prems"(3)
    have c: "VgaSeqRegisters s2 (VGA_SEQ_MASK_REG h) AND push_bit (k div VGA_BANK_SIZE) 1 = 0"
      by simp
    from "1.IH" [OF True a b "1.prems"(2) c] plane_gate [OF a "1.prems"(2) True "1.prems"(3)]
    show ?thesis by simp
  next
    case False
    with "1.prems"(1) show ?thesis by (simp add: planes_stop)
  qed
qed

lemma wloop_gate:
  assumes "VgaWriteMemory_loop h s Address Buffer Size i = Some s1"
    and "\<forall>n. i \<le> n \<and> n < unat Size \<longrightarrow>
           unat (VgaTranslateWriteAddress h s (Address + of_nat n)) < VGA_BANK_SIZE"
    and "VgaSeqRegisters s (VGA_SEQ_MASK_REG h) AND push_bit (k div VGA_BANK_SIZE) 1 = 0"
  shows "VgaMemory s1 k = VgaMemory s k"
  using assms
proof (induction h s Address Buffer Size i rule: VgaWriteMemory_loop.induct)
  case (1 h s Address Buffer Size i)
  show ?case
  proof (cases "i < unat Size")
    case True
    with "1.prems"(1) obtain s2
      where a: "VgaWriteMemory_planes h s Address Buffer i
                  (VgaTranslateWriteAddress h s (Address + of_nat i)) 0 = Some s2"
        and b: "VgaWriteMemory_loop h s2 Address Buffer Size (i + 1) = Some s1"
      by (simp add: wloop_step split: option.splits)
    note f = frame_regs [OF planes_frame [OF a]]
    from "1.prems"(2) True
    have v: "unat (VgaTranslateWriteAddress h s (Address + of_nat i)) < VGA_BANK_SIZE"
      by simp
    from "1.prems"(2)
    have r: "\<forall>n. i + 1 \<le> n \<and> n < unat Size \<longrightarrow>
           unat (VgaTranslateWriteAddress h s2 (Address + of_nat n)) < VGA_BANK_SIZE"
      by (simp add: f(2))
    from "1.prems"(3)
    have c: "VgaSeqRegisters s2 (VGA_SEQ_MASK_REG h) AND push_bit (k div VGA_BANK_SIZE) 1 = 0"
      by (simp add: f(1))
    from "1.IH" [OF True a b r c] planes_gate [OF a v "1.prems"(3)]
    show ?thesis by simp
  next
    case False
    with "1.prems"(1) show ?thesis by (simp add: wloop_stop)
  qed
qed

lemma plane_mask_gating_in_bank:
  assumes "VgaWriteMemory h s Address Buffer Size = Some s1"
    and "\<forall>n < unat Size.
           unat (VgaTranslateWriteAddress h s (Address + of_nat n)) < VGA_BANK_SIZE"
    and "VgaSeqRegisters s (VGA_SEQ_MASK_REG h) AND push_bit (k div VGA_BANK_SIZE) 1 = 0"
  shows "VgaMemory s1 k = VgaMemory s k"
proof (cases "VgaWriteMemory h s Address Buffer Size = VgaWriteMemory_loop h s Address Buffer Size 0")
  case True
  with assms(1) have "VgaWriteMemory_loop h s Address Buffer Size 0 = Some s1" by simp
  from wloop_gate [OF this _ assms(3)] assms(2) show ?thesis by simp
next
  case False
  then have "VgaWriteMemory h s Address Buffer Size = Some s"
    by (simp add: VgaWriteMemory_def split: if_splits)
  with assms(1) show ?thesis by simp
qed

lemma planar_example_regs:
  "VgaMiscRegister planar_example = 0x02"
  "VgaSeqRegisters planar_example = (\<lambda>_. 0)(2 := 0x01)"
  "VgaGcRegisters planar_example = (\<lambda>_. 0)"
  "VgaCrtcRegisters planar_example = (\<lambda>_. 0)"
  "VgaMemory planar_example = (\<lambda>_. 0)"
  by (simp_all add: planar_example_def VgaWritePort_def VgaWriteSequencer_def vga_h_std_def
      vga_init_def)

text \<open>
  C4: a call of \<^verbatim>\<open>VgaWriteMemory\<close> with plane mask \<open>M\<close> should leave every byte of every
  plane whose bit is clear in \<open>M\<close> unchanged. The code with \<open>M = 1\<close> (plane 0 alone), word
  addressing and the aperture A0000h to AFFFFh, for one byte FFh written at A8000h: the
  translated offset is 8000h times 2, one whole bank, and the byte lands at
  \<^verbatim>\<open>VgaMemory[1 * VGA_BANK_SIZE + 0]\<close>, the first byte of plane 1.
\<close>

theorem plane_mask_gating_overflow:
  "VgaSeqRegisters planar_example (VGA_SEQ_MASK_REG vga_h_std) = 0x01
   \<and> VgaGetVideoBaseAddress vga_h_std planar_example = 0xA0000
   \<and> VgaGetVideoLimitAddress vga_h_std planar_example = 0xAFFFF
   \<and> VgaMemory planar_example (1 * VGA_BANK_SIZE + 0) = 0
   \<and> (\<exists>s1. VgaWriteMemory vga_h_std planar_example 0xA8000 [0xFF] 1 = Some s1
          \<and> VgaMemory s1 (1 * VGA_BANK_SIZE + 0) = 0xFF)"
proof -
  have a: "VgaSeqRegisters planar_example (VGA_SEQ_MASK_REG vga_h_std) = 0x01"
    by (simp add: planar_example_regs vga_h_std_def)
  have b: "VgaGetVideoBaseAddress vga_h_std planar_example = 0xA0000"
    "VgaGetVideoLimitAddress vga_h_std planar_example = 0xAFFFF"
    by (simp_all add: VgaGetVideoBaseAddress_def VgaGetVideoLimitAddress_def MemoryBase_def
        MemoryLimit_def planar_example_regs)
  have c: "VgaMemory planar_example (1 * VGA_BANK_SIZE + 0) = 0"
    by (simp add: planar_example_regs)
  have sz: "VgaGetAddressSize vga_h_std planar_example = 2"
    by (simp add: VgaGetAddressSize_def planar_example_regs)
  have va: "VgaTranslateWriteAddress vga_h_std planar_example 0xA8000 = 0x10000"
    by (simp add: VgaTranslateWriteAddress_def b sz Let_def)
      (simp add: planar_example_regs vga_h_std_def)
  have k: "VGA_MISC_RAM_ENABLED vga_h_std = 0x02" "VGA_SEQ_MASK_REG vga_h_std = 2"
    "VGA_SEQ_MEM_REG vga_h_std = 4" "VGA_SEQ_MEM_C4 vga_h_std = 0x08"
    "VGA_GC_MODE_REG vga_h_std = 5" "VGA_GC_MODE_OE vga_h_std = 0x10"
    by (simp_all add: vga_h_std_def)
  have w: "VgaWriteMemory vga_h_std planar_example 0xA8000 [0xFF] 1
      = Some (planar_example\<lparr>VgaMemory := (VgaMemory planar_example)(65536 := 0xFF)\<rparr>)"
    by (simp add: VgaWriteMemory_def wloop_step wloop_stop planes_step planes_stop va
        VgaWriteMemory_plane_def VGA_NUM_BANKS_def VGA_BANK_SIZE_def planar_example_regs
        k Let_def)
  from a b c w show ?thesis by (simp add: VGA_BANK_SIZE_def)
qed

end
